theory Spec2Isabelle
  imports Complex_Main "HOL-Library.Sublist"
begin

section \<open>Single-precision arithmetic\<close>

text \<open>
  The C code computes in \<^verbatim>\<open>float\<close>. A float value is modelled by the real number it
  denotes, and every arithmetic operation of the source is followed by \<open>f32\<close>, the
  rounding of the exact result to the nearest binary32 number (24 significant bits, ties
  to the even significand, gradual underflow below \<open>pow2 (- 126)\<close>). Comparisons, negation and
  \<^verbatim>\<open>fabsf\<close> are exact. Infinities and NaN (results beyond \<open>FLT_MAX\<close>, division by
  zero) are outside the model.
\<close>

type_synonym float = real

definition pow2 :: "int \<Rightarrow> real" where
  "pow2 e = (if 0 \<le> e then 2 ^ nat e else 1 / 2 ^ nat (- e))"

text \<open>The binary exponent of a magnitude \<open>a\<close>: the largest \<open>e \<le> 127\<close> with
  \<open>pow2 e \<le> a\<close>, and \<open>-126\<close> for the subnormal range.\<close>

function float_exponent_from :: "int \<Rightarrow> real \<Rightarrow> int" where
  "float_exponent_from e a =
     (if e \<le> - 126 then - 126
      else if pow2 e \<le> a then e
      else float_exponent_from (e - 1) a)"
  by pat_completeness auto
termination
  by (relation "measure (\<lambda>(e, a). nat (e + 126))") auto

definition round_half_even :: "real \<Rightarrow> int" where
  "round_half_even q =
     (let f = \<lfloor>q\<rfloor>; r = q - of_int f
      in if r < 1 / 2 then f
         else if 1 / 2 < r then f + 1
         else if even f then f else f + 1)"

definition f32 :: "real \<Rightarrow> float" where
  "f32 x =
     (let u = pow2 (float_exponent_from 127 \<bar>x\<bar> - 23)
      in of_int (round_half_even (x / u)) * u)"

text \<open>\<^verbatim>\<open>FLT_MAX\<close>, the largest finite binary32 number.\<close>

definition FLT_MAX :: float where
  "FLT_MAX = (2 ^ 24 - 1) * 2 ^ 104"

section \<open>The Triangulate geometry node (node_geo_triangulate.cc)\<close>

text \<open>
  \<^verbatim>\<open>GeometryPtr\<close> is an optional geometry; a geometry holds an optional mesh
  (\<^verbatim>\<open>mesh_get_for_read\<close> may give \<^verbatim>\<open>nullptr\<close>). The external routine
  \<^verbatim>\<open>triangulate_mesh\<close> is a parameter; each call to it is recorded with its four
  integer arguments, so that "the routine was not called" is a statement about the result.
  The socket value is a C \<^verbatim>\<open>int\<close>; \<^verbatim>\<open>std::max\<close> does no arithmetic on it, so no
  wrap-around is involved.
\<close>

record 'm Geometry =
  mesh :: "'m option"

record triangulate_call =
  quad_method :: int
  ngon_method :: int
  min_vertices :: int
  flag :: int

definition geo_triangulate_exec ::
  "('m \<Rightarrow> int \<Rightarrow> int \<Rightarrow> int \<Rightarrow> int \<Rightarrow> 'm option) \<Rightarrow> 'm Geometry option \<Rightarrow> int
     \<Rightarrow> 'm Geometry option \<times> triangulate_call list" where
  "geo_triangulate_exec triangulate_mesh geometry_in minimum_vertices =
     (let min_vertices = max minimum_vertices 4
      in case geometry_in of
           None \<Rightarrow> (None, [])
         | Some g \<Rightarrow>
             (case mesh g of
                None \<Rightarrow> (None, [])
              | Some mesh_in \<Rightarrow>
                  (Some \<lparr>mesh = triangulate_mesh mesh_in 3 0 min_vertices 0\<rparr>,
                   [\<lparr>quad_method = 3, ngon_method = 0,
                     min_vertices = min_vertices, flag = 0\<rparr>])))"

section \<open>Keyframe extents of the graph editor (graph_edit.c)\<close>

text \<open>
  \<^verbatim>\<open>get_graph_keyframe_extents\<close> writes through four pointers, each of which may be
  \<^verbatim>\<open>NULL\<close>: a cell is \<open>None\<close> for a null pointer and \<open>Some v\<close> for a float variable
  holding \<open>v\<close>. The animation channels that \<^verbatim>\<open>ANIM_animdata_filter\<close> returns are the
  list \<open>anim_data\<close>. For one channel, what the library calls of the loop body return is
  data of the channel: the result of \<^verbatim>\<open>BKE_fcurve_calc_bounds\<close> (\<open>None\<close> when it
  returns false), the NLA remapping of \<^verbatim>\<open>BKE_nla_tweakedit_remap\<close> (\<open>None\<close> when
  \<^verbatim>\<open>ANIM_nla_mapping_get\<close> gives no \<^verbatim>\<open>AnimData\<close>), and the unit factor and offset of
  \<^verbatim>\<open>ANIM_unit_mapping_get_factor\<close>. The scene may be \<^verbatim>\<open>NULL\<close>; \<open>PSFRA\<close> and
  \<open>PEFRA\<close> are the values of the macros of those names on it.
\<close>

record extents =
  xmin :: "float option"
  xmax :: "float option"
  ymin :: "float option"
  ymax :: "float option"

record ext_channel =
  calc_bounds :: "(float \<times> float \<times> float \<times> float) option"
  nla_remap :: "(float \<Rightarrow> float) option"
  unitFac :: float
  unit_offset :: float

record Scene =
  PSFRA :: int
  PEFRA :: int

text \<open>\<^verbatim>\<open>if (p) *p = v;\<close>\<close>

definition store :: "float \<Rightarrow> float option \<Rightarrow> float option" where
  "store v p = (case p of None \<Rightarrow> None | Some _ \<Rightarrow> Some v)"

text \<open>\<^verbatim>\<open>if ((p) && (t < *p)) *p = t;\<close> and its mirror image.\<close>

definition store_if_less :: "float \<Rightarrow> float option \<Rightarrow> float option" where
  "store_if_less t p = (case p of None \<Rightarrow> None | Some v \<Rightarrow> Some (if t < v then t else v))"

definition store_if_greater :: "float \<Rightarrow> float option \<Rightarrow> float option" where
  "store_if_greater t p = (case p of None \<Rightarrow> None | Some v \<Rightarrow> Some (if t > v then t else v))"

text \<open>The initial values, "large values that will be easy to override".\<close>

definition extents_init :: "extents \<Rightarrow> extents" where
  "extents_init p =
     \<lparr>xmin = store (f32 999999999) (xmin p),
      xmax = store (f32 (- 999999999)) (xmax p),
      ymin = store (f32 999999999) (ymin p),
      ymax = store (f32 (- 999999999)) (ymax p)\<rparr>"

text \<open>The loop over the channels; the flag is \<^verbatim>\<open>foundBounds\<close>.\<close>

fun extents_loop :: "ext_channel list \<Rightarrow> extents \<times> bool \<Rightarrow> extents \<times> bool" where
  "extents_loop [] acc = acc"
| "extents_loop (ale # rest) (p, foundBounds) =
     (case calc_bounds ale of
        None \<Rightarrow> extents_loop rest (p, foundBounds)
      | Some (txmin, txmax, tymin, tymax) \<Rightarrow>
          (let txmin = (case nla_remap ale of None \<Rightarrow> txmin | Some remap \<Rightarrow> remap txmin);
               txmax = (case nla_remap ale of None \<Rightarrow> txmax | Some remap \<Rightarrow> remap txmax);
               tymin = f32 (f32 (tymin + unit_offset ale) * unitFac ale);
               tymax = f32 (f32 (tymax + unit_offset ale) * unitFac ale)
           in extents_loop rest
                (\<lparr>xmin = store_if_less txmin (xmin p),
                  xmax = store_if_greater txmax (xmax p),
                  ymin = store_if_less tymin (ymin p),
                  ymax = store_if_greater tymax (ymax p)\<rparr>, True)))"

text \<open>"Ensure that the extents are not too extreme that view implodes": the two
  conditionals of the \<^verbatim>\<open>foundBounds\<close> branch, as written.\<close>

definition widen_x :: "extents \<Rightarrow> extents" where
  "widen_x p =
     (case (xmin p, xmax p) of
        (Some lo, Some hi) \<Rightarrow>
          if \<bar>f32 (hi - lo)\<bar> < f32 (1 / 1000)
          then p\<lparr>xmin := Some (f32 (lo - f32 (5 / 10000))),
                 xmax := Some (f32 (hi + f32 (5 / 10000)))\<rparr>
          else p
      | _ \<Rightarrow> p)"

definition widen_y :: "extents \<Rightarrow> extents" where
  "widen_y p =
     (case (ymin p, ymax p) of
        (Some lo, Some hi) \<Rightarrow>
          if \<bar>f32 (hi - lo)\<bar> < f32 (1 / 1000)
          then p\<lparr>ymax := Some (f32 (f32 (hi - f32 (5 / 10000)) + f32 (5 / 10000)))\<rparr>
          else p
      | _ \<Rightarrow> p)"

text \<open>The result is \<open>None\<close> where the C code dereferences a null scene: in the branch
  that found channels but no bounds, \<open>PSFRA\<close> and \<open>PEFRA\<close> are read without a check.\<close>

definition get_graph_keyframe_extents ::
  "Scene option \<Rightarrow> ext_channel list \<Rightarrow> extents \<Rightarrow> extents option" where
  "get_graph_keyframe_extents scene anim_data ptrs =
     (let p = extents_init ptrs
      in if anim_data \<noteq> [] then
           (case extents_loop anim_data (p, False) of
              (p, True) \<Rightarrow> Some (widen_y (widen_x p))
            | (p, False) \<Rightarrow>
                (case scene of
                   Some sc \<Rightarrow>
                     Some \<lparr>xmin = store (f32 (of_int (PSFRA sc))) (xmin p),
                           xmax = store (f32 (of_int (PEFRA sc))) (xmax p),
                           ymin = store (- 5) (ymin p),
                           ymax = store 5 (ymax p)\<rparr>
                 | None \<Rightarrow>
                     if xmin p = None \<and> xmax p = None
                     then Some (p\<lparr>ymin := store (- 5) (ymin p), ymax := store 5 (ymax p)\<rparr>)
                     else None))
         else
           (case scene of
              Some sc \<Rightarrow>
                Some \<lparr>xmin = store (f32 (of_int (PSFRA sc))) (xmin p),
                      xmax = store (f32 (of_int (PEFRA sc))) (xmax p),
                      ymin = store (- 5) (ymin p),
                      ymax = store 5 (ymax p)\<rparr>
            | None \<Rightarrow>
                Some \<lparr>xmin = store (- 5) (xmin p),
                      xmax = store 100 (xmax p),
                      ymin = store (- 5) (ymin p),
                      ymax = store 5 (ymax p)\<rparr>))"

section \<open>The Decimate Keyframes operator (graph_edit.c)\<close>

subsection \<open>Data\<close>

text \<open>
  An F-Curve, as far as the operator touches it: the keyframe array \<^verbatim>\<open>fcu->bezt\<close>
  (\<open>None\<close> for the null pointer of a baked curve) and the count \<^verbatim>\<open>fcu->totvert\<close>. The
  contents of a \<^verbatim>\<open>BezTriple\<close> are never inspected by these functions (they are copied
  with \<^verbatim>\<open>memcpy\<close>), so the key type is a parameter \<open>'b\<close>. Array sizes are counted in
  elements; the byte size \<^verbatim>\<open>sizeof(BezTriple) * totvert\<close> is taken to fit the
  \<^verbatim>\<open>int\<close> it is stored in.
\<close>

record 'b FCurve =
  bezt :: "'b list option"
  totvert :: int

text \<open>\<^verbatim>\<open>tBeztCopyData\<close>; its array field is called \<^verbatim>\<open>bezt\<close> in the source.\<close>

record 'b tBeztCopyData =
  tot_vert :: int
  bezt_copy :: "'b list"

datatype tDecimModes = DECIM_RATIO | DECIM_ERROR

datatype event_type =
  LEFTMOUSE | EVT_RETKEY | EVT_PADENTER | EVT_ESCKEY | RIGHTMOUSE | MOUSEMOVE
| EVT_OTHER nat

datatype event_val = KM_PRESS | KM_OTHER nat

record wmEvent =
  ev_type :: event_type
  ev_val :: event_val
  ev_x :: int

datatype operator_flag =
  OPERATOR_RUNNING_MODAL | OPERATOR_CANCELLED | OPERATOR_FINISHED | OPERATOR_PASS_THROUGH

datatype report_type = RPT_WARNING

text \<open>\<^verbatim>\<open>tDecimateGraphOp\<close>: the region's \<^verbatim>\<open>winrct.xmin\<close> and \<^verbatim>\<open>winx\<close>, the list
  of the original keyframe arrays, and the numeric-input state, whose type \<open>'n\<close>
  (\<^verbatim>\<open>NumInput\<close>) belongs to the editor utilities and is a parameter.\<close>

record ('b, 'n) tDecimateGraphOp =
  region_xmin :: int
  region_winx :: int
  bezt_arr_list :: "'b tBeztCopyData list"
  num :: 'n

text \<open>The header text: either the numeric-input string or a whole percentage.\<close>

datatype 'n status = Status_NumInput 'n | Status_Percent int

text \<open>
  What the operator reads and writes outside its own locals. \<open>curves\<close> are the F-Curves
  of the channels that \<^verbatim>\<open>ANIM_animdata_filter\<close> returns for the filter flags the three
  decimate functions share; the same channels, in the same order, are taken to be returned
  on every call during one run of the operator. \<open>reports\<close> are the \<^verbatim>\<open>WM_report\<close>
  calls in order, \<open>notifiers\<close> counts \<^verbatim>\<open>WM_event_add_notifier\<close>, \<open>mode\<close>,
  \<open>remove_ratio\<close> and \<open>remove_error_margin\<close> are the operator's RNA properties and
  \<open>customdata\<close> is \<^verbatim>\<open>op->customdata\<close>.
\<close>

record ('b, 'n) world =
  curves :: "'b FCurve list"
  reports :: "(report_type \<times> string) list"
  notifiers :: nat
  modal_cursor :: bool
  status_text :: "'n status option"
  modal_handler :: bool
  mode :: tDecimModes
  remove_ratio :: float
  remove_error_margin :: float
  customdata :: "('b, 'n) tDecimateGraphOp option"

text \<open>
  The functions of other modules that the operator calls. \<open>decimate_fcurve\<close> works on
  the curve of one channel in place and returns a flag: the model returns the curve as the
  call leaves it, and the flag. \<open>ANIM_animdata_update\<close> is given one curve whose channel
  carries \<^verbatim>\<open>ANIM_UPDATE_DEFAULT\<close>. \<open>handleNumInput\<close> and \<open>applyNumInput\<close> may
  change the \<^verbatim>\<open>NumInput\<close> they are given. \<open>calloc_NumInput\<close> is the zero-filled
  \<^verbatim>\<open>NumInput\<close> of \<^verbatim>\<open>MEM_callocN\<close>.
\<close>

record ('b, 'n) host =
  decimate_fcurve :: "'b FCurve \<Rightarrow> float \<Rightarrow> float \<Rightarrow> 'b FCurve \<times> bool"
  ANIM_animdata_update :: "'b FCurve \<Rightarrow> 'b FCurve"
  hasNumInput :: "'n \<Rightarrow> bool"
  handleNumInput :: "'n \<Rightarrow> wmEvent \<Rightarrow> 'n \<times> bool"
  applyNumInput :: "'n \<Rightarrow> float \<Rightarrow> 'n \<times> float"
  calloc_NumInput :: 'n

text \<open>What of \<^verbatim>\<open>bContext\<close> the operator asks for: whether
  \<^verbatim>\<open>ANIM_animdata_get_context\<close> succeeds, and the region.\<close>

record bContext =
  anim_context :: bool
  ctx_region_xmin :: int
  ctx_region_winx :: int

text \<open>
  Modelled from the spec: \<^verbatim>\<open>RNA_property_float_set\<close> is not part of these files. The
  update "clamps the parameter to its policy's legal range (ratio to [0,1])"; the range is
  the one \<^verbatim>\<open>GRAPH_OT_decimate\<close> declares for \<^verbatim>\<open>remove_ratio\<close>.
\<close>

definition RNA_property_float_set :: "float \<Rightarrow> float" where
  "RNA_property_float_set value = (if value < 0 then 0 else if value > 1 then 1 else value)"

text \<open>The C cast \<^verbatim>\<open>(int)\<close> of a float: truncation towards zero.\<close>

definition int_of_float :: "float \<Rightarrow> int" where
  "int_of_float v = (if 0 \<le> v then \<lfloor>v\<rfloor> else \<lceil>v\<rceil>)"

subsection \<open>Batch decimation\<close>

definition skipping_warning :: "report_type \<times> string" where
  "skipping_warning = (RPT_WARNING, ''Decimate: Skipping non linear/bezier keyframes!'')"

text \<open>The loop of \<^verbatim>\<open>decimate_graph_keys\<close>: the curves as the calls leave them and
  the warnings in the order they are reported.\<close>

fun decimate_loop ::
  "('b, 'n) host \<Rightarrow> 'b FCurve list \<Rightarrow> float \<Rightarrow> float
     \<Rightarrow> 'b FCurve list \<times> (report_type \<times> string) list" where
  "decimate_loop h [] ratio error_sq_max = ([], [])"
| "decimate_loop h (ale # rest) ratio error_sq_max =
     (let (fcu, ok) = decimate_fcurve h ale ratio error_sq_max;
          (fcus, reps) = decimate_loop h rest ratio error_sq_max
      in (fcu # fcus, (if \<not> ok then [skipping_warning] else []) @ reps))"

definition decimate_graph_keys ::
  "('b, 'n) host \<Rightarrow> ('b, 'n) world \<Rightarrow> float \<Rightarrow> float \<Rightarrow> ('b, 'n) world" where
  "decimate_graph_keys h w ratio error_sq_max =
     (let (anim_data, reps) = decimate_loop h (curves w) ratio error_sq_max
      in w\<lparr>curves := map (ANIM_animdata_update h) anim_data,
            reports := reports w @ reps\<rparr>)"

subsection \<open>The modal session\<close>

text \<open>The copy loop of \<^verbatim>\<open>graphkeys_decimate_invoke\<close>: one entry, appended at the
  tail, for every curve that is not baked; \<^verbatim>\<open>memcpy\<close> copies \<open>totvert\<close> keys.\<close>

fun copy_bezts :: "'b FCurve list \<Rightarrow> 'b tBeztCopyData list" where
  "copy_bezts [] = []"
| "copy_bezts (fcu # rest) =
     (case bezt fcu of
        None \<Rightarrow> copy_bezts rest
      | Some bs \<Rightarrow>
          \<lparr>tot_vert = totvert fcu, bezt_copy = take (nat (totvert fcu)) bs\<rparr>
            # copy_bezts rest)"

text \<open>The loop of \<^verbatim>\<open>decimate_reset_bezts\<close>, walking the channels and the list of
  copies together; a baked curve does not advance the list of copies. The result is
  \<open>None\<close> where the C code reads \<^verbatim>\<open>link_bezt->data\<close> through a null link.\<close>

fun reset_loop :: "'b FCurve list \<Rightarrow> 'b tBeztCopyData list \<Rightarrow> 'b FCurve list option" where
  "reset_loop [] link_bezt = Some []"
| "reset_loop (fcu # rest) link_bezt =
     (if bezt fcu = None then map_option ((#) fcu) (reset_loop rest link_bezt)
      else (case link_bezt of
              [] \<Rightarrow> None
            | data # next \<Rightarrow>
                map_option
                  ((#) (fcu\<lparr>bezt := Some (take (nat (tot_vert data)) (bezt_copy data)),
                            totvert := tot_vert data\<rparr>))
                  (reset_loop rest next)))"

definition decimate_reset_bezts ::
  "('b, 'n) tDecimateGraphOp \<Rightarrow> 'b FCurve list \<Rightarrow> 'b FCurve list option" where
  "decimate_reset_bezts dgo anim_data = reset_loop anim_data (bezt_arr_list dgo)"

definition decimate_exit :: "('b, 'n) world \<Rightarrow> ('b, 'n) world" where
  "decimate_exit w =
     (case customdata w of
        None \<Rightarrow> w
      | Some dgo \<Rightarrow> w\<lparr>modal_cursor := False, status_text := None, customdata := None\<rparr>)"

definition decimate_draw_status_header ::
  "('b, 'n) host \<Rightarrow> ('b, 'n) world \<Rightarrow> ('b, 'n) tDecimateGraphOp \<Rightarrow> ('b, 'n) world" where
  "decimate_draw_status_header h w dgo =
     w\<lparr>status_text :=
         Some (if hasNumInput h (num dgo) then Status_NumInput (num dgo)
               else Status_Percent (int_of_float (f32 (remove_ratio w * 100))))\<rparr>"

text \<open>The pixel coordinates are C \<^verbatim>\<open>int\<close>s whose difference is taken not to overflow;
  the difference is converted to float for the division. A region of width 0, where the
  C division gives an infinity or NaN, is outside the model.\<close>

definition decimate_mouse_update_percentage ::
  "('b, 'n) tDecimateGraphOp \<Rightarrow> ('b, 'n) world \<Rightarrow> wmEvent \<Rightarrow> ('b, 'n) world" where
  "decimate_mouse_update_percentage dgo w event =
     (let percentage =
            f32 (f32 (of_int (ev_x event - region_xmin dgo)) / f32 (of_int (region_winx dgo)))
      in w\<lparr>remove_ratio := RNA_property_float_set percentage\<rparr>)"

definition baked_warning :: "report_type \<times> string" where
  "baked_warning =
     (RPT_WARNING,
      ''Fcurve Decimate: Can't decimate baked channels. Unbake them and try again.'')"

definition graphkeys_decimate_invoke ::
  "('b, 'n) host \<Rightarrow> bContext \<Rightarrow> ('b, 'n) world \<Rightarrow> wmEvent
     \<Rightarrow> ('b, 'n) world \<times> operator_flag set" where
  "graphkeys_decimate_invoke h C w event =
     (let w = w\<lparr>modal_cursor := True\<rparr>;
          dgo = \<lparr>region_xmin = 0, region_winx = 0, bezt_arr_list = [],
                 num = calloc_NumInput h\<rparr>;
          w = w\<lparr>customdata := Some dgo\<rparr>
      in if \<not> anim_context C then (decimate_exit w, {OPERATOR_CANCELLED})
         else
           (let dgo = dgo\<lparr>region_xmin := ctx_region_xmin C,
                          region_winx := ctx_region_winx C\<rparr>;
                w = decimate_mouse_update_percentage dgo w event;
                w = decimate_draw_status_header h w dgo;
                dgo = dgo\<lparr>bezt_arr_list := copy_bezts (curves w)\<rparr>;
                w = w\<lparr>customdata := Some dgo\<rparr>
            in if bezt_arr_list dgo = []
               then (decimate_exit (w\<lparr>reports := reports w @ [baked_warning]\<rparr>),
                     {OPERATOR_CANCELLED})
               else (w\<lparr>modal_handler := True\<rparr>, {OPERATOR_RUNNING_MODAL})))"

text \<open>From here on the result is \<open>None\<close> where the C code dereferences a null
  \<^verbatim>\<open>op->customdata\<close> or a null link of the list of copies.\<close>

definition graphkeys_decimate_modal_update ::
  "('b, 'n) host \<Rightarrow> ('b, 'n) world \<Rightarrow> ('b, 'n) world option" where
  "graphkeys_decimate_modal_update h w =
     (case customdata w of
        None \<Rightarrow> None
      | Some dgo \<Rightarrow>
          (let w = decimate_draw_status_header h w dgo
           in case decimate_reset_bezts dgo (curves w) of
                None \<Rightarrow> None
              | Some anim_data \<Rightarrow>
                  (let w = decimate_graph_keys h (w\<lparr>curves := anim_data\<rparr>)
                             (remove_ratio w) FLT_MAX
                   in Some (w\<lparr>notifiers := Suc (notifiers w)\<rparr>))))"

text \<open>In the default branch \<^verbatim>\<open>handleNumInput\<close> is called only for a press (the
  \<^verbatim>\<open>&&\<close> is short-circuit), and what it does to \<^verbatim>\<open>dgo->num\<close> stays whether or
  not it reports the event as handled.\<close>

definition graphkeys_decimate_modal ::
  "('b, 'n) host \<Rightarrow> ('b, 'n) world \<Rightarrow> wmEvent
     \<Rightarrow> (('b, 'n) world \<times> operator_flag set) option" where
  "graphkeys_decimate_modal h w event =
     (case customdata w of
        None \<Rightarrow> None
      | Some dgo \<Rightarrow>
          (let has_numinput = hasNumInput h (num dgo)
           in if ev_type event \<in> {LEFTMOUSE, EVT_RETKEY, EVT_PADENTER} then
                (if ev_val event = KM_PRESS
                 then Some (decimate_exit w, {OPERATOR_FINISHED})
                 else Some (w, {OPERATOR_RUNNING_MODAL}))
              else if ev_type event \<in> {EVT_ESCKEY, RIGHTMOUSE} then
                (if ev_val event = KM_PRESS
                 then (case decimate_reset_bezts dgo (curves w) of
                         None \<Rightarrow> None
                       | Some anim_data \<Rightarrow>
                           Some (decimate_exit
                                   (w\<lparr>curves := anim_data,
                                      notifiers := Suc (notifiers w)\<rparr>),
                                 {OPERATOR_CANCELLED}))
                 else Some (w, {OPERATOR_RUNNING_MODAL}))
              else if ev_type event = MOUSEMOVE then
                (if has_numinput = False
                 then map_option (\<lambda>w. (w, {OPERATOR_RUNNING_MODAL}))
                        (graphkeys_decimate_modal_update h
                           (decimate_mouse_update_percentage dgo w event))
                 else Some (w, {OPERATOR_RUNNING_MODAL}))
              else if ev_val event = KM_PRESS then
                (let (n, handled) = handleNumInput h (num dgo) event
                 in if handled then
                      (let percentage = remove_ratio w;
                           value = f32 (percentage * 100);
                           (n, value) = applyNumInput h n value;
                           percentage = f32 (value / 100);
                           w = w\<lparr>customdata := Some (dgo\<lparr>num := n\<rparr>),
                                 remove_ratio := RNA_property_float_set percentage\<rparr>
                       in map_option (\<lambda>w. (w, {OPERATOR_RUNNING_MODAL}))
                            (graphkeys_decimate_modal_update h w))
                    else Some (w\<lparr>customdata := Some (dgo\<lparr>num := n\<rparr>)\<rparr>,
                               {OPERATOR_RUNNING_MODAL, OPERATOR_PASS_THROUGH}))
              else Some (w, {OPERATOR_RUNNING_MODAL, OPERATOR_PASS_THROUGH})))"

text \<open>The window manager hands events to the modal callback for as long as it answers
  with \<^verbatim>\<open>OPERATOR_RUNNING_MODAL\<close>.\<close>

fun modal_events ::
  "('b, 'n) host \<Rightarrow> ('b, 'n) world \<Rightarrow> wmEvent list \<Rightarrow> ('b, 'n) world option" where
  "modal_events h w [] = Some w"
| "modal_events h w (event # events) =
     (case graphkeys_decimate_modal h w event of
        None \<Rightarrow> None
      | Some (w', ret) \<Rightarrow>
          if OPERATOR_RUNNING_MODAL \<in> ret then modal_events h w' events else Some w')"

text \<open>A run of updates of the session, each with the ratio that the property holds
  when \<^verbatim>\<open>graphkeys_decimate_modal_update\<close> is called.\<close>

fun updates ::
  "('b, 'n) host \<Rightarrow> float list \<Rightarrow> ('b, 'n) world \<Rightarrow> ('b, 'n) world option" where
  "updates h [] w = Some w"
| "updates h (p # ps) w =
     (case graphkeys_decimate_modal_update h (w\<lparr>remove_ratio := p\<rparr>) of
        None \<Rightarrow> None
      | Some w' \<Rightarrow> updates h ps w')"

subsection \<open>Execution without interaction\<close>

definition graphkeys_decimate_exec ::
  "('b, 'n) host \<Rightarrow> bContext \<Rightarrow> ('b, 'n) world \<Rightarrow> ('b, 'n) world \<times> operator_flag set" where
  "graphkeys_decimate_exec h C w =
     (if \<not> anim_context C then (w, {OPERATOR_CANCELLED})
      else
        (let (ratio, error_sq_max) =
               (case mode w of
                  DECIM_RATIO \<Rightarrow> (remove_ratio w, FLT_MAX)
                | DECIM_ERROR \<Rightarrow>
                    (1, f32 (remove_error_margin w * remove_error_margin w)))
         in if ratio = 0 \<or> error_sq_max = 0 then (w, {OPERATOR_FINISHED})
            else
              (let w = decimate_graph_keys h w ratio error_sq_max
               in (w\<lparr>notifiers := Suc (notifiers w)\<rparr>, {OPERATOR_FINISHED}))))"

subsection \<open>The curve store\<close>

text \<open>
  The model above hands the library call the curve of its channel and takes the curve as
  the call leaves it, which settles what happens to each curve. Who writes the curve data
  is a question about the store: here the curves of all channels are one store, a channel
  of \<open>anim_data\<close> is an index into it, and \<^verbatim>\<open>decimate_fcurve\<close>, which is handed a
  pointer to the channel and returns a flag, is a parameter that takes the store and
  returns the store as it leaves it, and the flag. \<^verbatim>\<open>ANIM_animdata_update\<close> is handed
  the whole list. These are the loop and the body of \<^verbatim>\<open>decimate_graph_keys\<close> once
  more, with the store passed through the calls; the function itself assigns to
  \<^verbatim>\<open>ale->update\<close> only, a field of the temporary list that is freed at the end.
\<close>

type_synonym 'b curve_store = "'b FCurve list"

fun decimate_store_loop ::
  "('b curve_store \<Rightarrow> nat \<Rightarrow> float \<Rightarrow> float \<Rightarrow> 'b curve_store \<times> bool)
     \<Rightarrow> 'b curve_store \<Rightarrow> nat list \<Rightarrow> float \<Rightarrow> float
     \<Rightarrow> 'b curve_store \<times> (report_type \<times> string) list" where
  "decimate_store_loop dec s [] ratio error_sq_max = (s, [])"
| "decimate_store_loop dec s (ale # rest) ratio error_sq_max =
     (let (s, ok) = dec s ale ratio error_sq_max;
          (s, reps) = decimate_store_loop dec s rest ratio error_sq_max
      in (s, (if \<not> ok then [skipping_warning] else []) @ reps))"

definition decimate_graph_keys_store ::
  "('b curve_store \<Rightarrow> nat \<Rightarrow> float \<Rightarrow> float \<Rightarrow> 'b curve_store \<times> bool)
     \<Rightarrow> ('b curve_store \<Rightarrow> nat list \<Rightarrow> 'b curve_store)
     \<Rightarrow> 'b curve_store \<Rightarrow> nat list \<Rightarrow> float \<Rightarrow> float
     \<Rightarrow> 'b curve_store \<times> (report_type \<times> string) list" where
  "decimate_graph_keys_store dec upd s anim_data ratio error_sq_max =
     (let (s, reps) = decimate_store_loop dec s anim_data ratio error_sq_max
      in (upd s anim_data, reps))"

text \<open>The library calls of a host as calls on the store: each works on the curve of the
  channel it is given.\<close>

definition at_channel_decimate ::
  "('b, 'n) host \<Rightarrow> 'b curve_store \<Rightarrow> nat \<Rightarrow> float \<Rightarrow> float \<Rightarrow> 'b curve_store \<times> bool" where
  "at_channel_decimate h s ale ratio err =
     (s[ale := fst (decimate_fcurve h (s ! ale) ratio err)],
      snd (decimate_fcurve h (s ! ale) ratio err))"

definition at_channel_update ::
  "('b, 'n) host \<Rightarrow> 'b curve_store \<Rightarrow> nat list \<Rightarrow> 'b curve_store" where
  "at_channel_update h s anim_data =
     fold (\<lambda>ale s. s[ale := ANIM_animdata_update h (s ! ale)]) anim_data s"

subsection \<open>Vocabulary of the statements\<close>

text \<open>A curve whose count is the length of its keyframe array.\<close>

definition fcurve_ok :: "'b FCurve \<Rightarrow> bool" where
  "fcurve_ok fcu = (case bezt fcu of None \<Rightarrow> True | Some bs \<Rightarrow> totvert fcu = int (length bs))"

text \<open>The two library calls that work on a curve neither remove the keyframe array of a
  curve that has one nor give one to a baked curve.\<close>

definition keeps_bezt :: "('b, 'n) host \<Rightarrow> bool" where
  "keeps_bezt h \<longleftrightarrow>
     (\<forall>fcu ratio err. (bezt (fst (decimate_fcurve h fcu ratio err)) = None) = (bezt fcu = None))
   \<and> (\<forall>fcu. (bezt (ANIM_animdata_update h fcu) = None) = (bezt fcu = None))"

text \<open>Two curves with the same keyframe data: equal, or both baked.\<close>

definition same_keys :: "'b FCurve \<Rightarrow> 'b FCurve \<Rightarrow> bool" where
  "same_keys a b \<longleftrightarrow> a = b \<or> (bezt a = None \<and> bezt b = None)"

text \<open>A session as \<^verbatim>\<open>graphkeys_decimate_invoke\<close> leaves it when it answers with
  \<^verbatim>\<open>OPERATOR_RUNNING_MODAL\<close>: the copies are those of the curves.\<close>

definition session_started :: "('b, 'n) world \<Rightarrow> bool" where
  "session_started w \<longleftrightarrow>
     (case customdata w of
        None \<Rightarrow> False
      | Some dgo \<Rightarrow> bezt_arr_list dgo = copy_bezts (curves w))"

text \<open>Numeric input is engaged in a session when \<^verbatim>\<open>hasNumInput\<close> reports input for
  the session's \<^verbatim>\<open>NumInput\<close>.\<close>

definition engaged :: "('b, 'n) host \<Rightarrow> ('b, 'n) world \<Rightarrow> bool" where
  "engaged h w = (case customdata w of None \<Rightarrow> False | Some dgo \<Rightarrow> hasNumInput h (num dgo))"

text \<open>Which curves of a list are baked, and a curve with the keyframe array and count
  of another put in place of its own (nothing changes when the other is baked).\<close>

definition baked_pattern :: "'b FCurve list \<Rightarrow> bool list" where
  "baked_pattern cs = map (\<lambda>fcu. bezt fcu = None) cs"

definition restore_bezts :: "'b FCurve \<Rightarrow> 'b FCurve \<Rightarrow> 'b FCurve" where
  "restore_bezts fcu0 fcu =
     (case bezt fcu0 of
        None \<Rightarrow> fcu
      | Some bs \<Rightarrow> fcu\<lparr>bezt := Some (take (nat (totvert fcu0)) bs), totvert := totvert fcu0\<rparr>)"

text \<open>A running session whose copies were taken from the curves \<open>cs0\<close> and whose
  channels are baked exactly where those were.\<close>

definition session_of :: "'b FCurve list \<Rightarrow> ('b, 'n) world \<Rightarrow> bool" where
  "session_of cs0 w \<longleftrightarrow>
     (case customdata w of
        None \<Rightarrow> False
      | Some dgo \<Rightarrow> bezt_arr_list dgo = copy_bezts cs0)
   \<and> baked_pattern (curves w) = baked_pattern cs0"

subsection \<open>Concrete inputs\<close>

text \<open>
  A host for the closed examples. Keys are named by numbers. Modelled from the spec:
  its decimator rejects a curve without handle data and leaves it alone
  (\<open>UnsupportedCurveKind\<close>), returns a curve with fewer than three keys unchanged, removes
  nothing at ratio 0 and never removes the two end keys; for any other ratio it removes
  every interior key. Its numeric input is a flag that the first handled key sets.
\<close>

definition example_host :: "(nat, bool) host" where
  "example_host =
     \<lparr>decimate_fcurve =
        (\<lambda>fcu ratio err.
           case bezt fcu of
             None \<Rightarrow> (fcu, False)
           | Some bs \<Rightarrow>
               if ratio \<le> 0 \<or> length bs < 3 then (fcu, True)
               else (fcu\<lparr>bezt := Some [hd bs, last bs], totvert := 2\<rparr>, True)),
      ANIM_animdata_update = (\<lambda>fcu. fcu),
      hasNumInput = (\<lambda>n. n),
      handleNumInput =
        (\<lambda>n event. case ev_type event of EVT_OTHER k \<Rightarrow> (True, True) | _ \<Rightarrow> (n, False)),
      applyNumInput = (\<lambda>n v. (n, 50)),
      calloc_NumInput = False\<rparr>"



text \<open>A selection of three curves, two of them baked, with no session running.\<close>

definition example_world :: "(nat, bool) world" where
  "example_world =
     \<lparr>curves = [\<lparr>bezt = None, totvert = 5\<rparr>,
                \<lparr>bezt = Some [1, 2, 3, 4], totvert = 4\<rparr>,
                \<lparr>bezt = None, totvert = 0\<rparr>],
      reports = [], notifiers = 0, modal_cursor = False, status_text = None,
      modal_handler = False, mode = DECIM_RATIO, remove_ratio = 0,
      remove_error_margin = 0, customdata = None\<rparr>"

text \<open>The same selection with a session running on it.\<close>

definition example_session :: "(nat, bool) world" where
  "example_session =
     example_world
       \<lparr>modal_cursor := True, modal_handler := True,
        customdata :=
          Some \<lparr>region_xmin = 0, region_winx = 100,
                bezt_arr_list = [\<lparr>tot_vert = 4, bezt_copy = [1, 2, 3, 4]\<rparr>],
                num = False\<rparr>\<rparr>"

text \<open>One channel whose keys all have the value \<open>3 / 2 ^ 35\<close>, a binary32 number, on
  frames 1 to 10, with no NLA remapping and the unit mapping 1, 0; and four float
  variables to receive the extents.\<close>

definition example_channel :: ext_channel where
  "example_channel =
     \<lparr>calc_bounds = Some (1, 10, 3 / 2 ^ 35, 3 / 2 ^ 35), nla_remap = None,
      unitFac = 1, unit_offset = 0\<rparr>"

definition example_cells :: extents where
  "example_cells = \<lparr>xmin = Some 0, xmax = Some 0, ymin = Some 0, ymax = Some 0\<rparr>"

text \<open>A context in which the animation data is found, with a region 100 pixels wide,
  and a selection that holds one baked curve only.\<close>

definition example_context :: bContext where
  "example_context = \<lparr>anim_context = True, ctx_region_xmin = 0, ctx_region_winx = 100\<rparr>"

definition baked_world :: "(nat, bool) world" where
  "baked_world = example_world\<lparr>curves := [\<lparr>bezt = None, totvert = 5\<rparr>]\<rparr>"

text \<open>A mouse move to the middle of the region, and a press of Escape.\<close>

definition example_move :: wmEvent where
  "example_move = \<lparr>ev_type = MOUSEMOVE, ev_val = KM_OTHER 0, ev_x = 50\<rparr>"

definition example_escape :: wmEvent where
  "example_escape = \<lparr>ev_type = EVT_ESCKEY, ev_val = KM_PRESS, ev_x = 50\<rparr>"

text \<open>
  A host whose \<^verbatim>\<open>NumInput\<close> holds the number typed, if there is one: the key
  \<open>EVT_OTHER (Suc k)\<close> types the number \<open>k\<close>, the key \<open>EVT_OTHER 0\<close> clears the entry,
  \<open>hasNumInput\<close> reports whether there is an entry, and \<open>applyNumInput\<close> gives the
  number typed and leaves the value alone when there is none. Its decimator is the one of
  \<open>example_host\<close>.
\<close>

definition keypad_host :: "(nat, real option) host" where
  "keypad_host =
     \<lparr>decimate_fcurve = decimate_fcurve example_host,
      ANIM_animdata_update = (\<lambda>fcu. fcu),
      hasNumInput = (\<lambda>n. n \<noteq> None),
      handleNumInput =
        (\<lambda>n event.
           case ev_type event of
             EVT_OTHER k \<Rightarrow> (if k = 0 then None else Some (real k - 1), True)
           | _ \<Rightarrow> (n, False)),
      applyNumInput = (\<lambda>n v. (n, case n of None \<Rightarrow> v | Some x \<Rightarrow> x)),
      calloc_NumInput = None\<rparr>"

text \<open>The curves of a selection and the state before a session is started on them; the
  session after it was started and the pointer moved to the right edge of the region
  (ratio 1), with nothing typed and after 50 has been typed; and the events of the keys and
  of a mouse move to \<open>x\<close>.\<close>

definition keypad_original :: "nat FCurve list" where
  "keypad_original =
     [\<lparr>bezt = None, totvert = 5\<rparr>,
      \<lparr>bezt = Some [1, 2, 3, 4], totvert = 4\<rparr>,
      \<lparr>bezt = None, totvert = 0\<rparr>]"

definition keypad_idle :: "(nat, real option) world" where
  "keypad_idle =
     \<lparr>curves = keypad_original,
      reports = [], notifiers = 0, modal_cursor = False, status_text = None,
      modal_handler = False, mode = DECIM_RATIO, remove_ratio = 1 / 3,
      remove_error_margin = 0, customdata = None\<rparr>"

definition keypad_session :: "(nat, real option) world" where
  "keypad_session =
     \<lparr>curves = [\<lparr>bezt = None, totvert = 5\<rparr>,
                \<lparr>bezt = Some [1, 4], totvert = 2\<rparr>,
                \<lparr>bezt = None, totvert = 0\<rparr>],
      reports = [skipping_warning, skipping_warning],
      notifiers = 1, modal_cursor = True,
      status_text = Some (Status_Percent 100),
      modal_handler = True, mode = DECIM_RATIO, remove_ratio = 1,
      remove_error_margin = 0,
      customdata =
        Some \<lparr>region_xmin = 0, region_winx = 100,
              bezt_arr_list = [\<lparr>tot_vert = 4, bezt_copy = [1, 2, 3, 4]\<rparr>],
              num = None\<rparr>\<rparr>"

definition keypad_engaged :: "(nat, real option) world" where
  "keypad_engaged =
     keypad_session
       \<lparr>customdata :=
          Some \<lparr>region_xmin = 0, region_winx = 100,
                bezt_arr_list = [\<lparr>tot_vert = 4, bezt_copy = [1, 2, 3, 4]\<rparr>],
                num = Some 50\<rparr>\<rparr>"

definition key_typing :: "nat \<Rightarrow> wmEvent" where
  "key_typing k = \<lparr>ev_type = EVT_OTHER (Suc k), ev_val = KM_PRESS, ev_x = 0\<rparr>"

definition key_clearing :: wmEvent where
  "key_clearing = \<lparr>ev_type = EVT_OTHER 0, ev_val = KM_PRESS, ev_x = 0\<rparr>"

definition move_to :: "int \<Rightarrow> wmEvent" where
  "move_to x = \<lparr>ev_type = MOUSEMOVE, ev_val = KM_OTHER 0, ev_x = x\<rparr>"

section \<open>The decimator of the specification\<close>

text \<open>
  Modelled from the spec: \<^verbatim>\<open>decimate_fcurve\<close> and the curve library it calls are not
  part of these files. Section 3 of the specification gives the data: a keyframe point with
  time, value (the field \<open>val\<close>), two handles and an interpolation kind; a curve as a
  sequence of points with
  the flag \<open>is_bezier\<close>; a policy that is either a ratio or a bound on the squared error
  (\<open>Unbounded\<close> stands for the bound "+infinity").
\<close>

record KeyframePoint =
  time :: real
  val :: real
  left_handle :: "real \<times> real"
  right_handle :: "real \<times> real"
  interpolation_kind :: nat

record Curve =
  points :: "KeyframePoint list"
  is_bezier :: bool

datatype error_bound = AtMost real | Unbounded

datatype DecimationPolicy = ByRatio real | ByErrorBound error_bound

datatype DecimationError = UnsupportedCurveKind

text \<open>
  Modelled from the spec: the error metric is left open by the specification ("a documented
  policy choice"), so the cost of removing a point is a parameter: a function of the
  original curve, the point and its two current neighbours.
\<close>

type_synonym removal_cost =
  "KeyframePoint list \<Rightarrow> KeyframePoint \<Rightarrow> KeyframePoint \<Rightarrow> KeyframePoint \<Rightarrow> real"

text \<open>
  Modelled from the spec, section 4.1: the costs of the interior points of the current
  sequence, in order (the first and the last point have none: "endpoints are never
  removed"); the cheapest of them, the leftmost on a tie; and the greedy loop, which
  removes the cheapest interior point at most \<open>k\<close> times and stops before a removal whose
  cost exceeds the bound. The costs are computed afresh in every round; since a cost
  depends on the two neighbours only, this is what recomputing "the costs of its two new
  neighbors" after a removal gives.
\<close>

fun removal_costs :: "removal_cost \<Rightarrow> KeyframePoint list \<Rightarrow> KeyframePoint list \<Rightarrow> real list" where
  "removal_costs cost original (a # b # c # rest) =
     cost original a b c # removal_costs cost original (b # c # rest)"
| "removal_costs cost original pts = []"

fun cheapest :: "real list \<Rightarrow> (nat \<times> real) option" where
  "cheapest [] = None"
| "cheapest (x # xs) =
     (case cheapest xs of
        None \<Rightarrow> Some (0, x)
      | Some (j, m) \<Rightarrow> if x \<le> m then Some (0, x) else Some (Suc j, m))"

definition remove_at :: "nat \<Rightarrow> 'a list \<Rightarrow> 'a list" where
  "remove_at i xs = take i xs @ drop (Suc i) xs"

definition exceeds :: "real \<Rightarrow> error_bound \<Rightarrow> bool" where
  "exceeds m b = (case b of AtMost e \<Rightarrow> e < m | Unbounded \<Rightarrow> False)"

fun greedy ::
  "removal_cost \<Rightarrow> KeyframePoint list \<Rightarrow> nat \<Rightarrow> error_bound \<Rightarrow> KeyframePoint list
     \<Rightarrow> KeyframePoint list" where
  "greedy cost original 0 b pts = pts"
| "greedy cost original (Suc k) b pts =
     (case cheapest (removal_costs cost original pts) of
        None \<Rightarrow> pts
      | Some (j, m) \<Rightarrow>
          if exceeds m b then pts
          else greedy cost original k b (remove_at (Suc j) pts))"

text \<open>
  Modelled from the spec, section 4.1: a curve that is not Bezier is rejected, a curve with
  fewer than three points and a policy of strength zero return the curve unchanged, ratio
  mode stops once \<open>floor (remove_ratio * eligible_point_count)\<close> points are removed, and
  error-bound mode stops at the first removal that would exceed the bound. The eligible
  points are counted as in the scenario of section 8 (five points, ratio 0.5, two
  removals): all points of the curve.
\<close>

definition eligible_point_count :: "Curve \<Rightarrow> nat" where
  "eligible_point_count curve = length (points curve)"

definition decimate :: "removal_cost \<Rightarrow> Curve \<Rightarrow> DecimationPolicy \<Rightarrow> DecimationError + Curve" where
  "decimate cost curve policy =
     (if \<not> is_bezier curve then Inl UnsupportedCurveKind
      else if length (points curve) < 3 then Inr curve
      else
        (case policy of
           ByRatio ratio \<Rightarrow>
             if ratio = 0 then Inr curve
             else Inr (curve\<lparr>points :=
                    greedy cost (points curve)
                      (nat \<lfloor>ratio * real (eligible_point_count curve)\<rfloor>)
                      Unbounded (points curve)\<rparr>)
         | ByErrorBound max_squared_error \<Rightarrow>
             if max_squared_error = AtMost 0 then Inr curve
             else Inr (curve\<lparr>points :=
                    greedy cost (points curve) (length (points curve))
                      max_squared_error (points curve)\<rparr>)))"

text \<open>For the closed example: the squared distance, in value, of a point from the straight
  line through its neighbours; and the straight line of five points of section 8.\<close>

definition linear_cost :: removal_cost where
  "linear_cost original a b c =
     (val b - (val a + (val c - val a) * (time b - time a) / (time c - time a))) ^ 2"

definition key :: "real \<Rightarrow> real \<Rightarrow> KeyframePoint" where
  "key t v = \<lparr>time = t, val = v, left_handle = (t - 1 / 3, v),
             right_handle = (t + 1 / 3, v), interpolation_kind = 0\<rparr>"

definition example_line :: Curve where
  "example_line = \<lparr>points = [key 0 0, key 1 1, key 2 2, key 3 3, key 4 4], is_bezier = True\<rparr>"

section \<open>Theorems\<close>

subsection \<open>Triangulate node\<close>

text \<open>
  C10. In every execution of the Triangulate node the minimum-vertices argument handed to
  the triangulation routine is the maximum of the "Minimum Vertices" socket value and 4, so
  it is never below 4; the routine is called exactly once when the input geometry has a
  mesh, and when the geometry is absent or has no mesh the output geometry is empty and the
  routine is not called.
\<close>

theorem geo_triangulate_exec_min_vertices:
  assumes "geo_triangulate_exec tri geometry_in v = (geometry_out, calls)"
  shows "(\<forall>c \<in> set calls. min_vertices c = max v 4 \<and> 4 \<le> min_vertices c)
       \<and> ((geometry_in = None \<or> (\<exists>g. geometry_in = Some g \<and> mesh g = None))
            \<longrightarrow> geometry_out = None \<and> calls = [])
       \<and> (\<forall>g m. geometry_in = Some g \<and> mesh g = Some m
            \<longrightarrow> calls = [\<lparr>quad_method = 3, ngon_method = 0,
                           min_vertices = max v 4, flag = 0\<rparr>]
              \<and> geometry_out = Some \<lparr>mesh = tri m 3 0 (max v 4) 0\<rparr>)"
  using assms
  by (auto simp: geo_triangulate_exec_def Let_def split: option.splits)

theorem geo_triangulate_exec_min_vertices_witness:
  "geo_triangulate_exec (\<lambda>m q n k f. Some (m + k)) (Some \<lparr>mesh = Some (10::int)\<rparr>) 1
     = (Some \<lparr>mesh = Some 14\<rparr>,
        [\<lparr>quad_method = 3, ngon_method = 0, min_vertices = 4, flag = 0\<rparr>])
   \<and> geo_triangulate_exec (\<lambda>m q n k f. Some (m + k)) (Some \<lparr>mesh = None\<rparr>) 7 = (None, [])
   \<and> geo_triangulate_exec (\<lambda>m q n k f. Some (m + k)) (None :: int Geometry option) 7
     = (None, [])"
proof -
  let ?tri = "\<lambda>(m::int) (q::int) (n::int) (k::int) (f::int). Some (m + k)"
  obtain go1 cs1 where e1:
    "geo_triangulate_exec ?tri (Some \<lparr>mesh = Some (10::int)\<rparr>) 1 = (go1, cs1)"
    by (cases "geo_triangulate_exec ?tri (Some \<lparr>mesh = Some (10::int)\<rparr>) 1")
  obtain go2 cs2 where e2:
    "geo_triangulate_exec ?tri (Some \<lparr>mesh = None\<rparr>) 7 = (go2, cs2)"
    by (cases "geo_triangulate_exec ?tri (Some \<lparr>mesh = None\<rparr>) 7")
  obtain go3 cs3 where e3:
    "geo_triangulate_exec ?tri (None :: int Geometry option) 7 = (go3, cs3)"
    by (cases "geo_triangulate_exec ?tri (None :: int Geometry option) 7")
  from geo_triangulate_exec_min_vertices [OF e1] have "go1 = Some \<lparr>mesh = Some 14\<rparr>"
    and "cs1 = [\<lparr>quad_method = 3, ngon_method = 0, min_vertices = 4, flag = 0\<rparr>]"
    by simp_all
  moreover from geo_triangulate_exec_min_vertices [OF e2] have "go2 = None" "cs2 = []"
    by simp_all
  moreover from geo_triangulate_exec_min_vertices [OF e3] have "go3 = None" "cs3 = []"
    by simp_all
  ultimately show ?thesis
    using e1 e2 e3 by simp
qed

subsection \<open>Keyframe extents\<close>

lemma f32_0: "f32 0 = 0"
  by (simp add: f32_def Let_def round_half_even_def)

text \<open>Values of the rounding at the constants of the example.\<close>

lemma f32_example_values:
  "f32 999999999 = 1000000000"
  "f32 (- 999999999) = - 1000000000"
  "f32 (3 / 34359738368) = 3 / 34359738368"
  "f32 (1 / 1000) = 8589935 / 8589934592"
  "f32 9 = 9"
  by (simp_all add: f32_def Let_def round_half_even_def pow2_def)

lemma f32_example_ymax:
  "f32 (f32 (3 / 34359738368 - f32 (1 / 2000)) + f32 (1 / 2000)) = 1 / 17179869184"
  by (simp add: f32_def Let_def round_half_even_def pow2_def)

lemma extents_init_example:
  "extents_init example_cells =
     \<lparr>xmin = Some 1000000000, xmax = Some (- 1000000000),
      ymin = Some 1000000000, ymax = Some (- 1000000000)\<rparr>"
  by (simp add: example_cells_def extents_init_def store_def f32_example_values)

lemma extents_loop_example:
  "extents_loop [example_channel] (extents_init example_cells, False) =
     (\<lparr>xmin = Some 1, xmax = Some 10,
       ymin = Some (3 / 34359738368), ymax = Some (3 / 34359738368)\<rparr>, True)"
  unfolding extents_init_example
  by (simp add: example_channel_def store_if_less_def store_if_greater_def
      f32_example_values Let_def)

text \<open>What the branch for found bounds does with a degenerate y-extent, for every input:
  \<^verbatim>\<open>*ymin\<close> is not written, and \<^verbatim>\<open>0.0005f\<close> is subtracted from \<^verbatim>\<open>*ymax\<close> and added
  to it again, each step rounded; the two bounds of a degenerate x-extent are moved
  apart.\<close>

lemma extents_degenerate_branch:
  assumes "anim_data \<noteq> []"
    and "extents_loop anim_data (extents_init ptrs, False) = (p, True)"
    and "ymin p = Some lo" and "ymax p = Some hi"
    and "\<bar>f32 (hi - lo)\<bar> < f32 (1 / 1000)"
  shows "\<exists>r. get_graph_keyframe_extents scene anim_data ptrs = Some r
           \<and> ymin r = Some lo
           \<and> ymax r = Some (f32 (f32 (hi - f32 (5 / 10000)) + f32 (5 / 10000)))
           \<and> (\<forall>xl xh. xmin p = Some xl \<and> xmax p = Some xh
                  \<and> \<bar>f32 (xh - xl)\<bar> < f32 (1 / 1000)
                \<longrightarrow> xmin r = Some (f32 (xl - f32 (5 / 10000)))
                  \<and> xmax r = Some (f32 (xh + f32 (5 / 10000))))"
  using assms
  by (auto simp: get_graph_keyframe_extents_def widen_x_def widen_y_def Let_def
           split: option.splits)

text \<open>
  C9. The branch for found bounds carries the comment
  \<^verbatim>\<open>Ensure that the extents are not too extreme that view implodes\<close>,
  and a degenerate x-extent is widened by lowering \<^verbatim>\<open>*xmin\<close> and raising
  \<^verbatim>\<open>*xmax\<close> by \<^verbatim>\<open>0.0005f\<close>. For a degenerate y-extent the code subtracts \<^verbatim>\<open>0.0005f\<close> from
  \<^verbatim>\<open>*ymax\<close> and adds it to \<^verbatim>\<open>*ymax\<close> again; \<^verbatim>\<open>*ymin\<close> is never lowered and the y-range is
  not widened. Nor are the bounds returned as the loop computed them: for the example channel
  the loop computes the minimum and the maximum \<open>3 / 2 ^ 35\<close>, and the function returns
  \<open>1 / 2 ^ 34\<close> in \<^verbatim>\<open>*ymax\<close>, below the unchanged \<^verbatim>\<open>*ymin\<close>, because the two roundings do
  not cancel.
\<close>

theorem extents_degenerate_y_rounding:
  "extents_loop [example_channel] (extents_init example_cells, False) =
     (\<lparr>xmin = Some 1, xmax = Some 10,
       ymin = Some (3 / 2 ^ 35), ymax = Some (3 / 2 ^ 35)\<rparr>, True)
   \<and> get_graph_keyframe_extents None [example_channel] example_cells =
       Some \<lparr>xmin = Some 1, xmax = Some 10,
             ymin = Some (3 / 2 ^ 35), ymax = Some (1 / 2 ^ 34)\<rparr>
   \<and> (1 / 2 ^ 34 :: real) < 3 / 2 ^ 35"
proof -
  have r: "get_graph_keyframe_extents None [example_channel] example_cells =
       Some \<lparr>xmin = Some 1, xmax = Some 10,
             ymin = Some (3 / 34359738368), ymax = Some (1 / 17179869184)\<rparr>"
    unfolding get_graph_keyframe_extents_def Let_def extents_loop_example
    by (simp add: widen_x_def widen_y_def f32_example_values f32_0 f32_example_ymax)
  have n: "(3 / 2 ^ 35 :: real) = 3 / 34359738368" "(1 / 2 ^ 34 :: real) = 1 / 17179869184"
    by simp_all
  show ?thesis
    unfolding n r extents_loop_example by simp
qed

subsection \<open>Batch decimation\<close>

lemma decimate_loop_fst:
  "fst (decimate_loop h cs ratio err) = map (\<lambda>fcu. fst (decimate_fcurve h fcu ratio err)) cs"
  by (induction cs) (simp_all add: split_beta)

lemma decimate_loop_snd:
  "snd (decimate_loop h cs ratio err) =
     replicate (length (filter (\<lambda>fcu. \<not> snd (decimate_fcurve h fcu ratio err)) cs))
       skipping_warning"
  by (induction cs) (simp_all add: split_beta)

lemma curves_decimate_graph_keys:
  "curves (decimate_graph_keys h w ratio err) =
     map (\<lambda>fcu. ANIM_animdata_update h (fst (decimate_fcurve h fcu ratio err))) (curves w)"
  by (simp add: decimate_graph_keys_def split_beta decimate_loop_fst)

lemma reports_decimate_graph_keys:
  "reports (decimate_graph_keys h w ratio err) =
     reports w @ replicate (length (filter (\<lambda>fcu. \<not> snd (decimate_fcurve h fcu ratio err))
                                       (curves w))) skipping_warning"
  by (simp add: decimate_graph_keys_def split_beta decimate_loop_snd)

lemma customdata_decimate_graph_keys:
  "customdata (decimate_graph_keys h w ratio err) = customdata w"
  by (simp add: decimate_graph_keys_def split_beta)

text \<open>
  C3, as amended. In a batch decimation every curve of the selection is handed to the
  decimator, whatever the decimator answers for the others, and one warning, the fixed
  message without a count, is reported for each curve the decimator rejects: \<open>k\<close>
  rejected curves give \<open>k\<close> warnings (so a selection of three curves with one rejected
  gives exactly one).
\<close>

theorem decimate_graph_keys_warnings:
  "reports (decimate_graph_keys h w ratio err) =
     reports w @ replicate (length (filter (\<lambda>fcu. \<not> snd (decimate_fcurve h fcu ratio err))
                                       (curves w))) skipping_warning
   \<and> length (curves (decimate_graph_keys h w ratio err)) = length (curves w)
   \<and> (\<forall>i < length (curves w).
         curves (decimate_graph_keys h w ratio err) ! i =
           ANIM_animdata_update h (fst (decimate_fcurve h (curves w ! i) ratio err)))"
  by (simp add: curves_decimate_graph_keys reports_decimate_graph_keys)

text \<open>C3, as stated, fails on a selection with two baked curves and a decimator that
  rejects baked curves: two warnings are reported, not one with a count of two.\<close>

theorem decimate_graph_keys_two_warnings:
  "reports (decimate_graph_keys example_host example_world (1 / 2) FLT_MAX)
     = [skipping_warning, skipping_warning]"
  by (simp add: reports_decimate_graph_keys example_host_def example_world_def)

theorem decimate_graph_keys_warnings_witness:
  "reports (decimate_graph_keys example_host
              (example_world\<lparr>curves := [\<lparr>bezt = Some [1, 2, 3], totvert = 3\<rparr>,
                                        \<lparr>bezt = None, totvert = 5\<rparr>,
                                        \<lparr>bezt = Some [4, 5, 6, 7], totvert = 4\<rparr>]\<rparr>)
              (1 / 2) FLT_MAX) = [skipping_warning]
   \<and> curves (decimate_graph_keys example_host
              (example_world\<lparr>curves := [\<lparr>bezt = Some [1, 2, 3], totvert = 3\<rparr>,
                                        \<lparr>bezt = None, totvert = 5\<rparr>,
                                        \<lparr>bezt = Some [4, 5, 6, 7], totvert = 4\<rparr>]\<rparr>)
              (1 / 2) FLT_MAX) ! 2 = \<lparr>bezt = Some [4, 7], totvert = 2\<rparr>"
  using decimate_graph_keys_warnings [of example_host
      "example_world\<lparr>curves := [\<lparr>bezt = Some [1, 2, 3], totvert = 3\<rparr>,
                                \<lparr>bezt = None, totvert = 5\<rparr>,
                                \<lparr>bezt = Some [4, 5, 6, 7], totvert = 4\<rparr>]\<rparr>" "1 / 2" FLT_MAX]
  by (simp add: example_host_def example_world_def)

text \<open>On the store, the model of the curves is the case of library calls that work on
  the curve of their channel only.\<close>

lemma upt_length_Cons:
  "[length pre ..< length pre + length (x # xs)]
     = length pre # [length (pre @ [y]) ..< length (pre @ [y]) + length xs]"
  by (simp add: upt_conv_Cons del: upt_Suc)

lemma store_loop_local:
  "decimate_store_loop (at_channel_decimate h) (pre @ cs)
       [length pre ..< length pre + length cs] ratio err
     = (pre @ map (\<lambda>fcu. fst (decimate_fcurve h fcu ratio err)) cs,
        snd (decimate_loop h cs ratio err))"
proof (induction cs arbitrary: pre)
  case Nil
  then show ?case by simp
next
  case (Cons fcu cs)
  let ?x = "fst (decimate_fcurve h fcu ratio err)"
  have d: "at_channel_decimate h (pre @ fcu # cs) (length pre) ratio err
      = ((pre @ [?x]) @ cs, snd (decimate_fcurve h fcu ratio err))"
    by (simp add: at_channel_decimate_def)
  have ih: "decimate_store_loop (at_channel_decimate h) ((pre @ [?x]) @ cs)
       [length (pre @ [?x]) ..< length (pre @ [?x]) + length cs] ratio err
     = (pre @ ?x # map (\<lambda>fcu. fst (decimate_fcurve h fcu ratio err)) cs,
        snd (decimate_loop h cs ratio err))"
    unfolding Cons.IH [of "pre @ [?x]"] by simp
  show ?case
    unfolding upt_length_Cons [of pre fcu cs ?x] decimate_store_loop.simps d
    by (simp only: ih split_conv Let_def decimate_loop.simps split_beta fst_conv snd_conv
        list.map)
qed

lemma store_update_local:
  "fold (\<lambda>ale s. s[ale := f (s ! ale)]) [length pre ..< length pre + length cs] (pre @ cs)
     = pre @ map f cs"
proof (induction cs arbitrary: pre)
  case Nil
  then show ?case by simp
next
  case (Cons fcu cs)
  have d: "(pre @ fcu # cs)[length pre := f ((pre @ fcu # cs) ! length pre)]
      = (pre @ [f fcu]) @ cs"
    by simp
  have ih: "fold (\<lambda>ale s. s[ale := f (s ! ale)])
       [length (pre @ [f fcu]) ..< length (pre @ [f fcu]) + length cs] ((pre @ [f fcu]) @ cs)
     = pre @ f fcu # map f cs"
    unfolding Cons.IH [of "pre @ [f fcu]"] by simp
  show ?case
    unfolding upt_length_Cons [of pre fcu cs "f fcu"] fold_simps d
    by (simp only: ih list.map)
qed

lemma decimate_graph_keys_store_local:
  "decimate_graph_keys_store (at_channel_decimate h) (at_channel_update h) (curves w)
       [0 ..< length (curves w)] ratio err
     = (curves (decimate_graph_keys h w ratio err),
        snd (decimate_loop h (curves w) ratio err))"
proof -
  have l: "decimate_store_loop (at_channel_decimate h) (curves w)
       [0 ..< length (curves w)] ratio err
     = (map (\<lambda>fcu. fst (decimate_fcurve h fcu ratio err)) (curves w),
        snd (decimate_loop h (curves w) ratio err))"
    using store_loop_local [of h "[]" "curves w" ratio err] by simp
  have f: "fold (\<lambda>ale s. s[ale := ANIM_animdata_update h (s ! ale)])
       [0 ..< length (curves w)]
       (map (\<lambda>fcu. fst (decimate_fcurve h fcu ratio err)) (curves w))
     = map (ANIM_animdata_update h)
         (map (\<lambda>fcu. fst (decimate_fcurve h fcu ratio err)) (curves w))"
    using store_update_local [of "ANIM_animdata_update h" "[]"
        "map (\<lambda>fcu. fst (decimate_fcurve h fcu ratio err)) (curves w)"]
    by simp
  show ?thesis
    unfolding decimate_graph_keys_store_def l
    by (simp add: at_channel_update_def f curves_decimate_graph_keys)
qed








subsection \<open>Execution without interaction\<close>

text \<open>
  C5. When the animation context is found, executing the operator in ratio mode with
  \<open>remove_ratio = 0\<close>, or in error mode with an error margin of 0, finishes successfully
  and changes nothing at all, so every curve keeps its keyframes; executing it again on
  the result gives the same result.
\<close>

theorem graphkeys_decimate_exec_zero:
  assumes "anim_context C"
    and "(mode w = DECIM_RATIO \<and> remove_ratio w = 0)
       \<or> (mode w = DECIM_ERROR \<and> remove_error_margin w = 0)"
  shows "graphkeys_decimate_exec h C w = (w, {OPERATOR_FINISHED})
       \<and> graphkeys_decimate_exec h C (fst (graphkeys_decimate_exec h C w))
           = graphkeys_decimate_exec h C w"
proof -
  have "graphkeys_decimate_exec h C w = (w, {OPERATOR_FINISHED})"
    using assms by (auto simp: graphkeys_decimate_exec_def f32_0)
  then show ?thesis by simp
qed

theorem graphkeys_decimate_exec_zero_witness:
  "graphkeys_decimate_exec example_host example_context example_world
     = (example_world, {OPERATOR_FINISHED})
   \<and> graphkeys_decimate_exec example_host example_context
       (example_world\<lparr>mode := DECIM_ERROR, remove_ratio := 1 / 3\<rparr>)
     = (example_world\<lparr>mode := DECIM_ERROR, remove_ratio := 1 / 3\<rparr>, {OPERATOR_FINISHED})"
  using graphkeys_decimate_exec_zero [of example_context example_world example_host]
    graphkeys_decimate_exec_zero [of example_context
      "example_world\<lparr>mode := DECIM_ERROR, remove_ratio := 1 / 3\<rparr>" example_host]
  by (simp add: example_context_def example_world_def)

subsection \<open>Starting a session\<close>

lemma copy_bezts_Nil: "(copy_bezts cs = []) = (\<forall>fcu \<in> set cs. bezt fcu = None)"
  by (induction cs) (auto split: option.splits)

text \<open>
  C7. When the animation context is found and no curve of the selection has a keyframe
  array, starting the interactive session fails: the warning that baked channels cannot be
  decimated is reported, the session data built so far is released (no custom data, the
  modal cursor and the header text are given back), the curves are untouched, no modal
  handler is added and the answer is \<^verbatim>\<open>OPERATOR_CANCELLED\<close>, not
  \<^verbatim>\<open>OPERATOR_RUNNING_MODAL\<close>.
\<close>

theorem graphkeys_decimate_invoke_baked:
  assumes "anim_context C"
    and "\<forall>fcu \<in> set (curves w). bezt fcu = None"
  shows "\<exists>w'. graphkeys_decimate_invoke h C w event = (w', {OPERATOR_CANCELLED})
           \<and> customdata w' = None
           \<and> modal_handler w' = modal_handler w
           \<and> reports w' = reports w @ [baked_warning]
           \<and> curves w' = curves w
           \<and> \<not> modal_cursor w' \<and> status_text w' = None"
proof -
  have "copy_bezts (curves w) = []"
    using assms(2) by (simp add: copy_bezts_Nil)
  then show ?thesis
    using assms(1)
    by (simp add: graphkeys_decimate_invoke_def Let_def decimate_exit_def
        decimate_mouse_update_percentage_def decimate_draw_status_header_def)
qed

theorem graphkeys_decimate_invoke_baked_witness:
  "snd (graphkeys_decimate_invoke example_host example_context baked_world
          \<lparr>ev_type = MOUSEMOVE, ev_val = KM_OTHER 0, ev_x = 50\<rparr>) = {OPERATOR_CANCELLED}
   \<and> reports (fst (graphkeys_decimate_invoke example_host example_context baked_world
          \<lparr>ev_type = MOUSEMOVE, ev_val = KM_OTHER 0, ev_x = 50\<rparr>)) = [baked_warning]
   \<and> customdata (fst (graphkeys_decimate_invoke example_host example_context baked_world
          \<lparr>ev_type = MOUSEMOVE, ev_val = KM_OTHER 0, ev_x = 50\<rparr>)) = None
   \<and> modal_handler (fst (graphkeys_decimate_invoke example_host example_context baked_world
          \<lparr>ev_type = MOUSEMOVE, ev_val = KM_OTHER 0, ev_x = 50\<rparr>)) = False"
proof -
  have "anim_context example_context"
    by (simp add: example_context_def)
  moreover have "\<forall>fcu \<in> set (curves baked_world). bezt fcu = None"
    by (simp add: baked_world_def)
  ultimately obtain w' where
    "graphkeys_decimate_invoke example_host example_context baked_world
       \<lparr>ev_type = MOUSEMOVE, ev_val = KM_OTHER 0, ev_x = 50\<rparr> = (w', {OPERATOR_CANCELLED})"
    "customdata w' = None" "modal_handler w' = modal_handler baked_world"
    "reports w' = reports baked_world @ [baked_warning]"
    using graphkeys_decimate_invoke_baked [of example_context baked_world example_host
        "\<lparr>ev_type = MOUSEMOVE, ev_val = KM_OTHER 0, ev_x = 50\<rparr>"]
    by blast
  then show ?thesis
    by (simp add: baked_world_def example_world_def)
qed

subsection \<open>The running session\<close>

lemma reset_loop_copy_bezts:
  "baked_pattern cs = baked_pattern cs0 \<Longrightarrow>
   reset_loop cs (copy_bezts cs0) = Some (map2 (\<lambda>fcu fcu0. restore_bezts fcu0 fcu) cs cs0)"
proof (induction cs arbitrary: cs0)
  case Nil
  then show ?case by (simp add: baked_pattern_def)
next
  case (Cons fcu cs)
  then obtain fcu0 cs0' where cs0: "cs0 = fcu0 # cs0'"
    by (cases cs0) (auto simp: baked_pattern_def)
  with Cons.prems have same: "(bezt fcu = None) = (bezt fcu0 = None)"
    and rest: "baked_pattern cs = baked_pattern cs0'"
    by (simp_all add: baked_pattern_def)
  show ?case
  proof (cases "bezt fcu0")
    case None
    with same rest show ?thesis
      by (simp add: cs0 Cons.IH restore_bezts_def)
  next
    case (Some bs)
    with same rest show ?thesis
      by (auto simp: cs0 Cons.IH restore_bezts_def)
  qed
qed

lemma baked_pattern_restore:
  "baked_pattern cs = baked_pattern cs0 \<Longrightarrow>
   baked_pattern (map2 (\<lambda>fcu fcu0. restore_bezts fcu0 fcu) cs cs0) = baked_pattern cs0"
proof (induction cs arbitrary: cs0)
  case Nil
  then show ?case by (simp add: baked_pattern_def)
next
  case (Cons fcu cs)
  then obtain fcu0 cs0' where cs0: "cs0 = fcu0 # cs0'"
    by (cases cs0) (auto simp: baked_pattern_def)
  with Cons.prems have same: "(bezt fcu = None) = (bezt fcu0 = None)"
    and rest: "baked_pattern cs = baked_pattern cs0'"
    by (simp_all add: baked_pattern_def)
  from Cons.IH [OF rest] same show ?case
    by (auto simp: cs0 baked_pattern_def restore_bezts_def split: option.splits)
qed

lemma same_keys_restore:
  "baked_pattern cs = baked_pattern cs0 \<Longrightarrow> baked_pattern cs' = baked_pattern cs0 \<Longrightarrow>
   list_all2 same_keys (map2 (\<lambda>fcu fcu0. restore_bezts fcu0 fcu) cs cs0)
                       (map2 (\<lambda>fcu fcu0. restore_bezts fcu0 fcu) cs' cs0)"
proof (induction cs0 arbitrary: cs cs')
  case Nil
  then show ?case by simp
next
  case (Cons fcu0 cs0)
  from Cons.prems obtain fcu r where cs: "cs = fcu # r"
    by (cases cs) (auto simp: baked_pattern_def)
  from Cons.prems obtain fcu' r' where cs': "cs' = fcu' # r'"
    by (cases cs') (auto simp: baked_pattern_def)
  from Cons.prems have hd: "(bezt fcu = None) = (bezt fcu0 = None)"
      "(bezt fcu' = None) = (bezt fcu0 = None)"
    and tl: "baked_pattern r = baked_pattern cs0" "baked_pattern r' = baked_pattern cs0"
    by (simp_all add: cs cs' baked_pattern_def)
  have "same_keys (restore_bezts fcu0 fcu) (restore_bezts fcu0 fcu')"
    using hd by (cases "bezt fcu0") (simp_all add: restore_bezts_def same_keys_def)
  with Cons.IH [OF tl] show ?case
    by (simp add: cs cs')
qed

lemma baked_pattern_decimate:
  "keeps_bezt h \<Longrightarrow>
   baked_pattern (curves (decimate_graph_keys h w ratio err)) = baked_pattern (curves w)"
  by (simp add: curves_decimate_graph_keys baked_pattern_def keeps_bezt_def)

lemma same_keys_step:
  assumes "keeps_bezt h" and "same_keys a b"
  shows "same_keys (ANIM_animdata_update h (fst (decimate_fcurve h a ratio err)))
                   (ANIM_animdata_update h (fst (decimate_fcurve h b ratio err)))"
  using assms by (auto simp: same_keys_def keeps_bezt_def)

lemma same_keys_decimate:
  assumes "keeps_bezt h" and "list_all2 same_keys (curves w) (curves w')"
  shows "list_all2 same_keys (curves (decimate_graph_keys h w ratio err))
                             (curves (decimate_graph_keys h w' ratio err))"
  using assms(2)
  by (simp add: curves_decimate_graph_keys list_all2_map1 list_all2_map2)
     (erule list_all2_mono, rule same_keys_step [OF assms(1)])

lemma modal_update_session:
  assumes "keeps_bezt h" and "session_of cs0 w"
  shows "\<exists>w'. graphkeys_decimate_modal_update h w = Some w'
           \<and> session_of cs0 w'
           \<and> customdata w' = customdata w
           \<and> curves w' =
               map (\<lambda>fcu. ANIM_animdata_update h
                            (fst (decimate_fcurve h fcu (remove_ratio w) FLT_MAX)))
                 (map2 (\<lambda>fcu fcu0. restore_bezts fcu0 fcu) (curves w) cs0)"
proof -
  from assms(2) obtain dgo where dgo: "customdata w = Some dgo"
    and copies: "bezt_arr_list dgo = copy_bezts cs0"
    and pat: "baked_pattern (curves w) = baked_pattern cs0"
    by (auto simp: session_of_def split: option.splits)
  let ?r = "map2 (\<lambda>fcu fcu0. restore_bezts fcu0 fcu) (curves w) cs0"
  define w1 where "w1 = (decimate_draw_status_header h w dgo)\<lparr>curves := ?r\<rparr>"
  define w2 where "w2 = decimate_graph_keys h w1 (remove_ratio w) FLT_MAX"
  have reset: "decimate_reset_bezts dgo (curves w) = Some ?r"
    by (simp add: decimate_reset_bezts_def copies reset_loop_copy_bezts [OF pat])
  have w1: "curves w1 = ?r" "customdata w1 = Some dgo"
    by (simp_all add: w1_def decimate_draw_status_header_def dgo)
  have upd: "graphkeys_decimate_modal_update h w = Some (w2\<lparr>notifiers := Suc (notifiers w2)\<rparr>)"
    by (simp add: graphkeys_decimate_modal_update_def dgo reset Let_def w2_def w1_def
        decimate_draw_status_header_def)
  have "baked_pattern (curves w2) = baked_pattern cs0"
    unfolding w2_def baked_pattern_decimate [OF assms(1)] w1
    by (rule baked_pattern_restore [OF pat])
  moreover have "customdata w2 = Some dgo"
    by (simp add: w2_def customdata_decimate_graph_keys w1)
  moreover have "curves w2 =
      map (\<lambda>fcu. ANIM_animdata_update h
                   (fst (decimate_fcurve h fcu (remove_ratio w) FLT_MAX))) ?r"
    by (simp only: w2_def curves_decimate_graph_keys w1)
  ultimately show ?thesis
    using upd copies dgo by (simp add: session_of_def)
qed

lemma updates_append:
  "updates h (ps @ qs) w =
     (case updates h ps w of None \<Rightarrow> None | Some w' \<Rightarrow> updates h qs w')"
  by (induction ps arbitrary: w) (simp_all split: option.splits)

lemma session_of_remove_ratio [simp]:
  "session_of cs0 (w\<lparr>remove_ratio := p\<rparr>) = session_of cs0 w"
  by (simp add: session_of_def)

lemma session_of_num:
  "customdata w = Some dgo \<Longrightarrow>
   session_of cs0 (w\<lparr>customdata := Some (dgo\<lparr>num := n\<rparr>)\<rparr>) = session_of cs0 w"
  by (simp add: session_of_def)

lemma session_started_session_of: "session_started w \<Longrightarrow> session_of (curves w) w"
  by (simp add: session_started_def session_of_def split: option.splits)

lemma updates_session:
  assumes "keeps_bezt h"
  shows "session_of cs0 w \<Longrightarrow> \<exists>w'. updates h ps w = Some w' \<and> session_of cs0 w'"
proof (induction ps arbitrary: w)
  case Nil
  then show ?case by simp
next
  case (Cons p ps)
  from Cons.prems have "session_of cs0 (w\<lparr>remove_ratio := p\<rparr>)" by simp
  from modal_update_session [OF assms this]
  obtain w1 where "graphkeys_decimate_modal_update h (w\<lparr>remove_ratio := p\<rparr>) = Some w1"
    and "session_of cs0 w1" by blast
  with Cons.IH [of w1] show ?case by simp
qed

lemma same_keys_bezt: "list_all2 same_keys xs ys \<Longrightarrow> map bezt xs = map bezt ys"
  by (induction rule: list_all2_induct) (auto simp: same_keys_def)

text \<open>
  C1. Let the library calls keep the keyframe array of a curve that has one and give none
  to a baked curve. In a session as \<^verbatim>\<open>graphkeys_decimate_invoke\<close> starts it, any run
  of updates that ends with the ratio \<open>p\<close> returns, and leaves every curve with the same
  keyframe data as the single update with \<open>p\<close>: the curves are pairwise equal, or both
  baked.
\<close>

theorem updates_path_independent:
  assumes "keeps_bezt h" and "session_started w"
  shows "\<exists>w1 w2. updates h (ps @ [p]) w = Some w1 \<and> updates h [p] w = Some w2
           \<and> list_all2 same_keys (curves w1) (curves w2)
           \<and> map bezt (curves w1) = map bezt (curves w2)"
proof -
  let ?cs0 = "curves w"
  let ?step = "\<lambda>fcu. ANIM_animdata_update h (fst (decimate_fcurve h fcu p FLT_MAX))"
  let ?restore = "\<lambda>cs. map2 (\<lambda>fcu fcu0. restore_bezts fcu0 fcu) cs ?cs0"
  have s0: "session_of ?cs0 w"
    by (rule session_started_session_of [OF assms(2)])
  from updates_session [OF assms(1) s0]
  obtain w' where w': "updates h ps w = Some w'" and s': "session_of ?cs0 w'" by blast
  from s' have "session_of ?cs0 (w'\<lparr>remove_ratio := p\<rparr>)" by simp
  from modal_update_session [OF assms(1) this]
  obtain w1 where w1: "graphkeys_decimate_modal_update h (w'\<lparr>remove_ratio := p\<rparr>) = Some w1"
    and c1: "curves w1 = map ?step (?restore (curves w'))" by auto
  from s0 have "session_of ?cs0 (w\<lparr>remove_ratio := p\<rparr>)" by simp
  from modal_update_session [OF assms(1) this]
  obtain w2 where w2: "graphkeys_decimate_modal_update h (w\<lparr>remove_ratio := p\<rparr>) = Some w2"
    and c2: "curves w2 = map ?step (?restore (curves w))" by auto
  have "list_all2 same_keys (?restore (curves w')) (?restore (curves w))"
    using s' by (intro same_keys_restore) (simp_all add: session_of_def)
  then have rel: "list_all2 same_keys (curves w1) (curves w2)"
    unfolding c1 c2 list_all2_map1 list_all2_map2
    by (rule list_all2_mono) (rule same_keys_step [OF assms(1)])
  have "updates h (ps @ [p]) w = Some w1"
    by (simp add: updates_append w' w1)
  moreover have "updates h [p] w = Some w2"
    by (simp add: w2)
  ultimately show ?thesis
    using rel same_keys_bezt [OF rel] by blast
qed

theorem updates_path_independent_witness:
  "map_option (map bezt \<circ> curves) (updates example_host [1, 1 / 2, 0] example_session)
     = Some [None, Some [1, 2, 3, 4], None]
   \<and> map_option (map bezt \<circ> curves) (updates example_host [0, 1 / 2] example_session)
     = Some [None, Some [1, 4], None]"
proof -
  have k: "keeps_bezt example_host"
    by (simp add: keeps_bezt_def example_host_def split: option.splits)
  have s: "session_started example_session"
    by (simp add: session_started_def example_session_def example_world_def)
  have zero: "map_option curves (updates example_host [0] example_session)
     = Some (curves example_session)"
    by (simp add: graphkeys_decimate_modal_update_def decimate_draw_status_header_def
        decimate_reset_bezts_def curves_decimate_graph_keys Let_def
        example_session_def example_world_def example_host_def)
  have half: "map_option curves (updates example_host [1 / 2] example_session)
     = Some [\<lparr>bezt = None, totvert = 5\<rparr>, \<lparr>bezt = Some [1, 4], totvert = 2\<rparr>,
             \<lparr>bezt = None, totvert = 0\<rparr>]"
    by (simp add: graphkeys_decimate_modal_update_def decimate_draw_status_header_def
        decimate_reset_bezts_def curves_decimate_graph_keys Let_def
        example_session_def example_world_def example_host_def)
  from updates_path_independent [OF k s, of "[1, 1 / 2]" 0]
  obtain w1 w2 where "updates example_host ([1, 1 / 2] @ [0]) example_session = Some w1"
    and "updates example_host [0] example_session = Some w2"
    and "map bezt (curves w1) = map bezt (curves w2)"
    by blast
  with zero
  have a: "map_option (map bezt \<circ> curves) (updates example_host [1, 1 / 2, 0] example_session)
     = Some [None, Some [1, 2, 3, 4], None]"
    by (simp add: example_session_def example_world_def)
  from updates_path_independent [OF k s, of "[0]" "1 / 2"]
  obtain v1 v2 where "updates example_host ([0] @ [1 / 2]) example_session = Some v1"
    and "updates example_host [1 / 2] example_session = Some v2"
    and "map bezt (curves v1) = map bezt (curves v2)"
    by blast
  with half
  have b: "map_option (map bezt \<circ> curves) (updates example_host [0, 1 / 2] example_session)
     = Some [None, Some [1, 4], None]"
    by simp
  from a b show ?thesis ..
qed

subsection \<open>Cancelling a session\<close>

lemma reset_session:
  assumes "session_of cs0 w" and "customdata w = Some dgo"
  shows "decimate_reset_bezts dgo (curves w) =
           Some (map2 (\<lambda>fcu fcu0. restore_bezts fcu0 fcu) (curves w) cs0)"
  using assms
  by (simp add: session_of_def decimate_reset_bezts_def reset_loop_copy_bezts)

lemma modal_session_step:
  assumes "keeps_bezt h" and "session_of cs0 w"
  shows "\<exists>w' ret. graphkeys_decimate_modal h w event = Some (w', ret)
           \<and> (if OPERATOR_RUNNING_MODAL \<in> ret then session_of cs0 w'
               else customdata w' = None)"
proof -
  from assms(2) obtain dgo where dgo: "customdata w = Some dgo"
    by (auto simp: session_of_def split: option.splits)
  note reset = reset_session [OF assms(2) dgo]
  consider (confirm) "ev_type event \<in> {LEFTMOUSE, EVT_RETKEY, EVT_PADENTER}"
    | (cancel) "ev_type event \<in> {EVT_ESCKEY, RIGHTMOUSE}"
    | (move) "ev_type event = MOUSEMOVE"
    | (other) k where "ev_type event = EVT_OTHER k"
    by (cases "ev_type event") auto
  then show ?thesis
  proof cases
    case confirm
    with dgo assms(2) show ?thesis
      by (auto simp: graphkeys_decimate_modal_def decimate_exit_def)
  next
    case cancel
    with dgo assms(2) reset show ?thesis
      by (auto simp: graphkeys_decimate_modal_def decimate_exit_def)
  next
    case move
    show ?thesis
    proof (cases "hasNumInput h (num dgo)")
      case True
      with move dgo assms(2) show ?thesis
        by (simp add: graphkeys_decimate_modal_def)
    next
      case False
      have "session_of cs0 (decimate_mouse_update_percentage dgo w event)"
        using assms(2) by (simp add: decimate_mouse_update_percentage_def Let_def)
      from modal_update_session [OF assms(1) this]
      obtain w' where "graphkeys_decimate_modal_update h
          (decimate_mouse_update_percentage dgo w event) = Some w'" "session_of cs0 w'"
        by blast
      with move dgo False show ?thesis
        by (simp add: graphkeys_decimate_modal_def)
    qed
  next
    case other
    show ?thesis
    proof (cases "ev_val event = KM_PRESS")
      case False
      with other dgo assms(2) show ?thesis
        by (simp add: graphkeys_decimate_modal_def)
    next
      case True
      obtain n handled where hn: "handleNumInput h (num dgo) event = (n, handled)"
        by (cases "handleNumInput h (num dgo) event")
      obtain n' v where an: "applyNumInput h n (f32 (remove_ratio w * 100)) = (n', v)"
        by (cases "applyNumInput h n (f32 (remove_ratio w * 100))")
      show ?thesis
      proof (cases handled)
        case False
        with other True dgo hn assms(2) show ?thesis
          by (simp add: graphkeys_decimate_modal_def session_of_num)
      next
        case handled: True
        let ?w = "w\<lparr>customdata := Some (dgo\<lparr>num := n'\<rparr>),
                      remove_ratio := RNA_property_float_set (f32 (v / 100))\<rparr>"
        have "session_of cs0 ?w"
          using assms(2) dgo by (simp add: session_of_def)
        from modal_update_session [OF assms(1) this]
        obtain w' where "graphkeys_decimate_modal_update h ?w = Some w'" "session_of cs0 w'"
          by blast
        with other True dgo hn an handled show ?thesis
          by (simp add: graphkeys_decimate_modal_def Let_def)
      qed
    qed
  qed
qed

lemma modal_events_session:
  assumes "keeps_bezt h"
  shows "session_of cs0 w \<Longrightarrow>
         \<exists>w'. modal_events h w events = Some w' \<and> (customdata w' \<noteq> None \<longrightarrow> session_of cs0 w')"
proof (induction events arbitrary: w)
  case Nil
  then show ?case by simp
next
  case (Cons event events)
  from modal_session_step [OF assms Cons.prems, of event]
  obtain w' ret where step: "graphkeys_decimate_modal h w event = Some (w', ret)"
    and nxt: "if OPERATOR_RUNNING_MODAL \<in> ret then session_of cs0 w' else customdata w' = None"
    by blast
  show ?case
  proof (cases "OPERATOR_RUNNING_MODAL \<in> ret")
    case True
    with nxt Cons.IH [of w'] step show ?thesis by simp
  next
    case False
    with nxt step show ?thesis by simp
  qed
qed

lemma restore_bezts_original:
  assumes "fcurve_ok fcu0" and "(bezt fcu = None) = (bezt fcu0 = None)"
  shows "same_keys (restore_bezts fcu0 fcu) fcu0"
  using assms
  by (cases fcu0; cases fcu)
     (auto simp: same_keys_def restore_bezts_def fcurve_ok_def split: option.splits)

lemma restore_original:
  "\<forall>fcu \<in> set cs0. fcurve_ok fcu \<Longrightarrow> baked_pattern cs = baked_pattern cs0 \<Longrightarrow>
   list_all2 same_keys (map2 (\<lambda>fcu fcu0. restore_bezts fcu0 fcu) cs cs0) cs0"
proof (induction cs0 arbitrary: cs)
  case Nil
  then show ?case by simp
next
  case (Cons fcu0 cs0)
  from Cons.prems obtain fcu r where cs: "cs = fcu # r"
    by (cases cs) (auto simp: baked_pattern_def)
  with Cons.prems have "(bezt fcu = None) = (bezt fcu0 = None)" "baked_pattern r = baked_pattern cs0"
    by (simp_all add: baked_pattern_def)
  with Cons.prems(1) Cons.IH [of r] show ?case
    by (simp add: cs restore_bezts_original)
qed

lemma same_keys_nth:
  "list_all2 same_keys xs ys \<Longrightarrow> i < length ys \<Longrightarrow> bezt (ys ! i) \<noteq> None \<Longrightarrow> xs ! i = ys ! i"
  by (auto simp: list_all2_conv_all_nth same_keys_def)

text \<open>
  C2. Let the library calls keep the keyframe array of a curve that has one and give none
  to a baked curve, and let every curve's count be the length of its array when the session
  starts. Whatever events the session has handled, it handles them without fault, and if
  it is still running, a press of Escape or of the right mouse button answers
  \<^verbatim>\<open>OPERATOR_CANCELLED\<close>, releases the session data with its copies, and leaves every
  curve that has a keyframe array equal to the curve before the session, array and count,
  and every baked curve baked.
\<close>

theorem cancel_restores:
  assumes "keeps_bezt h" and "session_started w0"
    and "\<forall>fcu \<in> set (curves w0). fcurve_ok fcu"
    and "ev_type event \<in> {EVT_ESCKEY, RIGHTMOUSE}" and "ev_val event = KM_PRESS"
  shows "\<exists>w1. modal_events h w0 events = Some w1
           \<and> (customdata w1 \<noteq> None \<longrightarrow>
                (\<exists>w2. graphkeys_decimate_modal h w1 event = Some (w2, {OPERATOR_CANCELLED})
                   \<and> customdata w2 = None
                   \<and> list_all2 same_keys (curves w2) (curves w0)
                   \<and> map bezt (curves w2) = map bezt (curves w0)
                   \<and> (\<forall>i < length (curves w0).
                        bezt (curves w0 ! i) \<noteq> None \<longrightarrow> curves w2 ! i = curves w0 ! i)))"
proof -
  let ?cs0 = "curves w0"
  have "session_of ?cs0 w0"
    by (rule session_started_session_of [OF assms(2)])
  from modal_events_session [OF assms(1) this]
  obtain w1 where w1: "modal_events h w0 events = Some w1"
    and s1: "customdata w1 \<noteq> None \<longrightarrow> session_of ?cs0 w1" by blast
  have "\<exists>w2. graphkeys_decimate_modal h w1 event = Some (w2, {OPERATOR_CANCELLED})
                   \<and> customdata w2 = None
                   \<and> list_all2 same_keys (curves w2) (curves w0)
                   \<and> map bezt (curves w2) = map bezt (curves w0)
                   \<and> (\<forall>i < length (curves w0).
                        bezt (curves w0 ! i) \<noteq> None \<longrightarrow> curves w2 ! i = curves w0 ! i)"
    if active: "customdata w1 \<noteq> None"
  proof -
    from s1 active have s: "session_of ?cs0 w1" by simp
    from active obtain dgo where dgo: "customdata w1 = Some dgo" by auto
    let ?r = "map2 (\<lambda>fcu fcu0. restore_bezts fcu0 fcu) (curves w1) ?cs0"
    have rel: "list_all2 same_keys ?r ?cs0"
      using assms(3) s by (intro restore_original) (simp_all add: session_of_def)
    have "graphkeys_decimate_modal h w1 event =
        Some (decimate_exit (w1\<lparr>curves := ?r, notifiers := Suc (notifiers w1)\<rparr>),
              {OPERATOR_CANCELLED})"
      using assms(4,5) dgo reset_session [OF s dgo]
      by (auto simp: graphkeys_decimate_modal_def)
    moreover have "customdata (decimate_exit (w1\<lparr>curves := ?r, notifiers := Suc (notifiers w1)\<rparr>)) = None"
      "curves (decimate_exit (w1\<lparr>curves := ?r, notifiers := Suc (notifiers w1)\<rparr>)) = ?r"
      using dgo by (simp_all add: decimate_exit_def)
    ultimately show ?thesis
      using rel same_keys_bezt [OF rel] same_keys_nth [OF rel] by simp
  qed
  with w1 show ?thesis by blast
qed

lemma example_percentage: "RNA_property_float_set (f32 (f32 50 / f32 100)) = 1 / 2"
  by (simp add: RNA_property_float_set_def f32_def Let_def round_half_even_def pow2_def)

lemma keeps_bezt_example: "keeps_bezt example_host"
  by (simp add: keeps_bezt_def example_host_def split: option.splits)

theorem cancel_restores_witness:
  "\<exists>w1 w2. modal_events example_host example_session [example_move] = Some w1
      \<and> map bezt (curves w1) = [None, Some [1, 4], None]
      \<and> graphkeys_decimate_modal example_host w1 example_escape
           = Some (w2, {OPERATOR_CANCELLED})
      \<and> customdata w2 = None
      \<and> map bezt (curves w2) = [None, Some [1, 2, 3, 4], None]"
proof -
  have s: "session_started example_session"
    by (simp add: session_started_def example_session_def example_world_def)
  have ok: "\<forall>fcu \<in> set (curves example_session). fcurve_ok fcu"
    by (simp add: example_session_def example_world_def fcurve_ok_def)
  have e: "ev_type example_escape \<in> {EVT_ESCKEY, RIGHTMOUSE}" "ev_val example_escape = KM_PRESS"
    by (simp_all add: example_escape_def)
  have m: "decimate_mouse_update_percentage dgo example_session example_move
             = example_session\<lparr>remove_ratio := 1 / 2\<rparr>"
    if "region_xmin dgo = 0" "region_winx dgo = 100" for dgo :: "(nat, bool) tDecimateGraphOp"
    using that by (simp add: decimate_mouse_update_percentage_def example_move_def
        example_percentage)
  have "map_option (map bezt \<circ> curves)
          (graphkeys_decimate_modal_update example_host (example_session\<lparr>remove_ratio := 1 / 2\<rparr>))
        = Some [None, Some [1, 4], None]"
    by (simp add: graphkeys_decimate_modal_update_def decimate_draw_status_header_def
        decimate_reset_bezts_def curves_decimate_graph_keys Let_def
        example_session_def example_world_def example_host_def)
  then obtain w1 where w1: "graphkeys_decimate_modal_update example_host
        (example_session\<lparr>remove_ratio := 1 / 2\<rparr>) = Some w1"
    and c1: "map bezt (curves w1) = [None, Some [1, 4], None]"
    by auto
  have c: "customdata example_session =
      Some \<lparr>region_xmin = 0, region_winx = 100,
            bezt_arr_list = [\<lparr>tot_vert = 4, bezt_copy = [1, 2, 3, 4]\<rparr>], num = False\<rparr>"
    by (simp add: example_session_def)
  have step: "graphkeys_decimate_modal example_host example_session example_move
      = Some (w1, {OPERATOR_RUNNING_MODAL})"
    unfolding graphkeys_decimate_modal_def c
    by (simp add: m w1) (simp add: example_move_def example_host_def)
  then have run: "modal_events example_host example_session [example_move] = Some w1"
    by simp
  from modal_update_session [OF keeps_bezt_example, of "curves example_session"
      "example_session\<lparr>remove_ratio := 1 / 2\<rparr>"] s w1
  have active: "customdata w1 \<noteq> None"
    by (auto simp: session_of_def session_started_def baked_pattern_def
        split: option.splits)
  from cancel_restores [OF keeps_bezt_example s ok e, of "[example_move]"] run active
  obtain w2 where "graphkeys_decimate_modal example_host w1 example_escape
           = Some (w2, {OPERATOR_CANCELLED})" "customdata w2 = None"
      "map bezt (curves w2) = map bezt (curves example_session)"
    by auto
  with run c1 show ?thesis
    by (simp add: example_session_def example_world_def)
qed

subsection \<open>Numeric input\<close>

lemma modal_mousemove_numinput:
  "customdata w = Some dgo \<Longrightarrow> hasNumInput h (num dgo) \<Longrightarrow> ev_type event = MOUSEMOVE \<Longrightarrow>
   graphkeys_decimate_modal h w event = Some (w, {OPERATOR_RUNNING_MODAL})"
  by (simp add: graphkeys_decimate_modal_def)

lemma modal_update_remove_ratio:
  "graphkeys_decimate_modal_update h w = Some w' \<Longrightarrow> remove_ratio w' = remove_ratio w"
  by (auto simp: graphkeys_decimate_modal_update_def Let_def decimate_graph_keys_def
      decimate_draw_status_header_def split_beta split: option.splits)

lemma RNA_property_float_set_range:
  "0 \<le> RNA_property_float_set v \<and> RNA_property_float_set v \<le> 1"
  by (simp add: RNA_property_float_set_def)

lemma modal_numeric_step:
  assumes "keeps_bezt h" and "session_of cs0 w" and "customdata w = Some dgo"
    and "ev_type event = EVT_OTHER k" and "ev_val event = KM_PRESS"
    and "handleNumInput h (num dgo) event = (n, True)"
    and "applyNumInput h n (f32 (remove_ratio w * 100)) = (n', v)"
  shows "\<exists>w'. graphkeys_decimate_modal h w event = Some (w', {OPERATOR_RUNNING_MODAL})
           \<and> remove_ratio w' = RNA_property_float_set (f32 (v / 100))
           \<and> customdata w' = Some (dgo\<lparr>num := n'\<rparr>)
           \<and> session_of cs0 w'
           \<and> curves w' =
               map (\<lambda>fcu. ANIM_animdata_update h
                            (fst (decimate_fcurve h fcu (remove_ratio w') FLT_MAX)))
                 (map2 (\<lambda>fcu fcu0. restore_bezts fcu0 fcu) (curves w) cs0)"
proof -
  let ?w = "w\<lparr>customdata := Some (dgo\<lparr>num := n'\<rparr>),
                remove_ratio := RNA_property_float_set (f32 (v / 100))\<rparr>"
  have s: "session_of cs0 ?w"
    using assms(2,3) by (simp add: session_of_def)
  from modal_update_session [OF assms(1) s]
  obtain w' where u: "graphkeys_decimate_modal_update h ?w = Some w'"
    and s': "session_of cs0 w'" and c: "customdata w' = customdata ?w"
    and cs: "curves w' =
               map (\<lambda>fcu. ANIM_animdata_update h
                            (fst (decimate_fcurve h fcu (remove_ratio ?w) FLT_MAX)))
                 (map2 (\<lambda>fcu fcu0. restore_bezts fcu0 fcu) (curves ?w) cs0)"
    by blast
  from modal_update_remove_ratio [OF u]
  have r: "remove_ratio w' = RNA_property_float_set (f32 (v / 100))" by simp
  have "graphkeys_decimate_modal h w event = Some (w', {OPERATOR_RUNNING_MODAL})"
    using assms(3-7) u by (simp add: graphkeys_decimate_modal_def Let_def)
  with r s' c cs show ?thesis by simp
qed

lemma modal_mouse_step:
  assumes "keeps_bezt h" and "session_of cs0 w" and "customdata w = Some dgo"
    and "ev_type event = MOUSEMOVE" and "\<not> hasNumInput h (num dgo)"
  shows "\<exists>w'. graphkeys_decimate_modal h w event = Some (w', {OPERATOR_RUNNING_MODAL})
           \<and> remove_ratio w' =
               RNA_property_float_set
                 (f32 (f32 (of_int (ev_x event - region_xmin dgo))
                         / f32 (of_int (region_winx dgo))))
           \<and> customdata w' = Some dgo
           \<and> session_of cs0 w'
           \<and> curves w' =
               map (\<lambda>fcu. ANIM_animdata_update h
                            (fst (decimate_fcurve h fcu (remove_ratio w') FLT_MAX)))
                 (map2 (\<lambda>fcu fcu0. restore_bezts fcu0 fcu) (curves w) cs0)"
proof -
  let ?w = "decimate_mouse_update_percentage dgo w event"
  have w: "?w = w\<lparr>remove_ratio := RNA_property_float_set
                 (f32 (f32 (of_int (ev_x event - region_xmin dgo))
                         / f32 (of_int (region_winx dgo))))\<rparr>"
    by (simp add: decimate_mouse_update_percentage_def Let_def)
  have s: "session_of cs0 ?w"
    using assms(2) by (simp add: w)
  from modal_update_session [OF assms(1) s]
  obtain w' where u: "graphkeys_decimate_modal_update h ?w = Some w'"
    and s': "session_of cs0 w'" and c: "customdata w' = customdata ?w"
    and cs: "curves w' =
               map (\<lambda>fcu. ANIM_animdata_update h
                            (fst (decimate_fcurve h fcu (remove_ratio ?w) FLT_MAX)))
                 (map2 (\<lambda>fcu fcu0. restore_bezts fcu0 fcu) (curves ?w) cs0)"
    by blast
  from modal_update_remove_ratio [OF u]
  have r: "remove_ratio w' = remove_ratio ?w" .
  have "graphkeys_decimate_modal h w event = Some (w', {OPERATOR_RUNNING_MODAL})"
    using assms(3-5) u by (simp add: graphkeys_decimate_modal_def)
  with r s' c cs assms(3) show ?thesis by (simp add: w)
qed

lemma modal_events_skip_moves:
  assumes "customdata w = Some dgo" and "hasNumInput h (num dgo)"
  shows "\<forall>e \<in> set moves. ev_type e = MOUSEMOVE \<Longrightarrow>
         modal_events h w (moves @ rest) = modal_events h w rest"
proof (induction moves)
  case Nil
  then show ?case by simp
next
  case (Cons e moves)
  then have "graphkeys_decimate_modal h w e = Some (w, {OPERATOR_RUNNING_MODAL})"
    using assms by (simp add: modal_mousemove_numinput)
  with Cons show ?case by simp
qed

lemma keypad_values:
  "RNA_property_float_set (f32 (50 / 100)) = 1 / 2"
  "RNA_property_float_set (f32 (f32 (1 / 2 * 100) / 100)) = 1 / 2"
  "RNA_property_float_set (f32 (f32 25 / f32 100)) = 1 / 4"
  "RNA_property_float_set (f32 (0 / 100)) = 0"
  by (simp_all add: RNA_property_float_set_def f32_def Let_def round_half_even_def pow2_def)

lemma keypad_start_values:
  "RNA_property_float_set (f32 (f32 50 / f32 100)) = 1 / 2"
  "f32 100 \<noteq> 0"
  "RNA_property_float_set (f32 1) = 1"
  "int_of_float (f32 50) = 50"
  "int_of_float (f32 100) = 100"
  by (simp_all add: RNA_property_float_set_def int_of_float_def f32_def Let_def
      round_half_even_def pow2_def)

lemma keypad_invoke:
  "graphkeys_decimate_invoke keypad_host example_context keypad_idle (move_to 50)
     = (keypad_idle
          \<lparr>modal_cursor := True, status_text := Some (Status_Percent 50),
           modal_handler := True, remove_ratio := 1 / 2,
           customdata :=
             Some \<lparr>region_xmin = 0, region_winx = 100,
                   bezt_arr_list = [\<lparr>tot_vert = 4, bezt_copy = [1, 2, 3, 4]\<rparr>],
                   num = None\<rparr>\<rparr>,
        {OPERATOR_RUNNING_MODAL})"
  unfolding graphkeys_decimate_invoke_def decimate_mouse_update_percentage_def
    decimate_draw_status_header_def
  by (simp add: Let_def example_context_def move_to_def keypad_idle_def keypad_original_def
      keypad_host_def keypad_start_values)

text \<open>The session \<^verbatim>\<open>keypad_session\<close> is the state the operator is in after it was invoked
  on the idle selection and the pointer then moved to the right edge of the region.\<close>

lemma keypad_session_reached:
  "modal_events keypad_host
     (fst (graphkeys_decimate_invoke keypad_host example_context keypad_idle (move_to 50)))
     [move_to 100] = Some keypad_session"
  unfolding keypad_invoke fst_conv
  by (simp add: graphkeys_decimate_modal_def graphkeys_decimate_modal_update_def
      decimate_mouse_update_percentage_def decimate_draw_status_header_def
      decimate_reset_bezts_def decimate_graph_keys_def Let_def
      move_to_def keypad_idle_def keypad_original_def keypad_session_def
      keypad_host_def example_host_def keypad_start_values)

lemma keeps_bezt_keypad: "keeps_bezt keypad_host"
  by (simp add: keeps_bezt_def keypad_host_def example_host_def split: option.splits)

lemma session_of_keypad: "session_of keypad_original keypad_session"
  by (simp add: session_of_def keypad_session_def keypad_original_def baked_pattern_def)

lemma customdata_keypad:
  "customdata keypad_session =
     Some \<lparr>region_xmin = 0, region_winx = 100,
           bezt_arr_list = [\<lparr>tot_vert = 4, bezt_copy = [1, 2, 3, 4]\<rparr>], num = None\<rparr>"
  by (simp add: keypad_session_def)

text \<open>
  C8, as amended. The operator keeps no record of its own that numeric input has been
  engaged: it asks \<^verbatim>\<open>hasNumInput\<close> at every event. In a running session whose copies
  were taken from the curves \<open>cs0\<close>, with library calls that keep the keyframe array of a
  curve that has one and give none to a baked curve: while \<^verbatim>\<open>hasNumInput\<close> reports
  input, a run of mouse moves changes nothing, the session goes on as if they had not
  occurred; a handled key of numeric input stores the entered percentage, clamped to
  \<open>[0, 1]\<close> by the property setter, and leaves every curve as the decimation with that
  ratio of the curve restored from the session's copy; and a mouse move while
  \<^verbatim>\<open>hasNumInput\<close> reports none, in a region of non-zero width, does the same with the
  percentage of the pointer position.
\<close>

theorem numeric_input_while_engaged:
  assumes "keeps_bezt h" and "session_of cs0 w" and "customdata w = Some dgo"
  shows "(hasNumInput h (num dgo) \<and> (\<forall>e \<in> set moves. ev_type e = MOUSEMOVE)
            \<longrightarrow> modal_events h w (moves @ rest) = modal_events h w rest)
       \<and> (\<forall>k n n' v.
             ev_type event = EVT_OTHER k \<and> ev_val event = KM_PRESS
             \<and> handleNumInput h (num dgo) event = (n, True)
             \<and> applyNumInput h n (f32 (remove_ratio w * 100)) = (n', v)
           \<longrightarrow> (\<exists>w'. graphkeys_decimate_modal h w event = Some (w', {OPERATOR_RUNNING_MODAL})
                  \<and> remove_ratio w' = RNA_property_float_set (f32 (v / 100))
                  \<and> 0 \<le> remove_ratio w' \<and> remove_ratio w' \<le> 1
                  \<and> curves w' =
                      map (\<lambda>fcu. ANIM_animdata_update h
                                   (fst (decimate_fcurve h fcu (remove_ratio w') FLT_MAX)))
                        (map2 (\<lambda>fcu fcu0. restore_bezts fcu0 fcu) (curves w) cs0)))
       \<and> (\<not> hasNumInput h (num dgo) \<and> ev_type event = MOUSEMOVE \<and> region_winx dgo \<noteq> 0
           \<longrightarrow> (\<exists>w'. graphkeys_decimate_modal h w event = Some (w', {OPERATOR_RUNNING_MODAL})
                  \<and> remove_ratio w' =
                      RNA_property_float_set
                        (f32 (f32 (of_int (ev_x event - region_xmin dgo))
                                / f32 (of_int (region_winx dgo))))
                  \<and> 0 \<le> remove_ratio w' \<and> remove_ratio w' \<le> 1
                  \<and> curves w' =
                      map (\<lambda>fcu. ANIM_animdata_update h
                                   (fst (decimate_fcurve h fcu (remove_ratio w') FLT_MAX)))
                        (map2 (\<lambda>fcu fcu0. restore_bezts fcu0 fcu) (curves w) cs0)))"
proof (intro conjI impI allI)
  assume "hasNumInput h (num dgo) \<and> (\<forall>e \<in> set moves. ev_type e = MOUSEMOVE)"
  then show "modal_events h w (moves @ rest) = modal_events h w rest"
    using modal_events_skip_moves [OF assms(3)] by blast
next
  fix k n n' v
  assume a: "ev_type event = EVT_OTHER k \<and> ev_val event = KM_PRESS
             \<and> handleNumInput h (num dgo) event = (n, True)
             \<and> applyNumInput h n (f32 (remove_ratio w * 100)) = (n', v)"
  from modal_numeric_step [OF assms, of event k n n' v] a
  obtain w' where "graphkeys_decimate_modal h w event = Some (w', {OPERATOR_RUNNING_MODAL})"
    "remove_ratio w' = RNA_property_float_set (f32 (v / 100))"
    "curves w' =
       map (\<lambda>fcu. ANIM_animdata_update h
                    (fst (decimate_fcurve h fcu (remove_ratio w') FLT_MAX)))
         (map2 (\<lambda>fcu fcu0. restore_bezts fcu0 fcu) (curves w) cs0)"
    by blast
  then show "\<exists>w'. graphkeys_decimate_modal h w event = Some (w', {OPERATOR_RUNNING_MODAL})
                  \<and> remove_ratio w' = RNA_property_float_set (f32 (v / 100))
                  \<and> 0 \<le> remove_ratio w' \<and> remove_ratio w' \<le> 1
                  \<and> curves w' =
                      map (\<lambda>fcu. ANIM_animdata_update h
                                   (fst (decimate_fcurve h fcu (remove_ratio w') FLT_MAX)))
                        (map2 (\<lambda>fcu fcu0. restore_bezts fcu0 fcu) (curves w) cs0)"
    using RNA_property_float_set_range [of "f32 (v / 100)"] by auto
next
  assume a: "\<not> hasNumInput h (num dgo) \<and> ev_type event = MOUSEMOVE \<and> region_winx dgo \<noteq> 0"
  let ?p = "f32 (f32 (of_int (ev_x event - region_xmin dgo)) / f32 (of_int (region_winx dgo)))"
  from modal_mouse_step [OF assms, of event] a
  obtain w' where "graphkeys_decimate_modal h w event = Some (w', {OPERATOR_RUNNING_MODAL})"
    "remove_ratio w' = RNA_property_float_set ?p"
    "curves w' =
       map (\<lambda>fcu. ANIM_animdata_update h
                    (fst (decimate_fcurve h fcu (remove_ratio w') FLT_MAX)))
         (map2 (\<lambda>fcu fcu0. restore_bezts fcu0 fcu) (curves w) cs0)"
    by blast
  then show "\<exists>w'. graphkeys_decimate_modal h w event = Some (w', {OPERATOR_RUNNING_MODAL})
                  \<and> remove_ratio w' = RNA_property_float_set ?p
                  \<and> 0 \<le> remove_ratio w' \<and> remove_ratio w' \<le> 1
                  \<and> curves w' =
                      map (\<lambda>fcu. ANIM_animdata_update h
                                   (fst (decimate_fcurve h fcu (remove_ratio w') FLT_MAX)))
                        (map2 (\<lambda>fcu fcu0. restore_bezts fcu0 fcu) (curves w) cs0)"
    using RNA_property_float_set_range [of ?p] by auto
qed

text \<open>C8, as stated, fails with a numeric input whose entry can be cleared: after 50 has
  been typed numeric input is engaged and the ratio is 1/2; after the entry is cleared, a
  mouse move to a quarter of the region sets the ratio to 1/4.\<close>

theorem pointer_after_numeric_entry:
  "map_option (engaged keypad_host)
     (modal_events keypad_host keypad_session [key_typing 50]) = Some True
   \<and> map_option remove_ratio
       (modal_events keypad_host keypad_session [key_typing 50, key_clearing]) = Some (1 / 2)
   \<and> map_option remove_ratio
       (modal_events keypad_host keypad_session [key_typing 50, key_clearing, move_to 25])
       = Some (1 / 4)"
proof -
  let ?dgo = "\<lparr>region_xmin = 0, region_winx = 100,
           bezt_arr_list = [\<lparr>tot_vert = 4, bezt_copy = [1, 2, 3, 4 :: nat]\<rparr>],
           num = (None :: real option)\<rparr>"
  have "handleNumInput keypad_host (num ?dgo) (key_typing 50) = (Some 50, True)"
    and "applyNumInput keypad_host (Some 50) (f32 (remove_ratio keypad_session * 100))
           = (Some 50, 50)"
    and "ev_type (key_typing 50) = EVT_OTHER 51" and "ev_val (key_typing 50) = KM_PRESS"
    by (simp_all add: keypad_host_def key_typing_def)
  from modal_numeric_step [OF keeps_bezt_keypad session_of_keypad customdata_keypad this(3,4,1,2)]
  obtain w1 where m1: "graphkeys_decimate_modal keypad_host keypad_session (key_typing 50)
        = Some (w1, {OPERATOR_RUNNING_MODAL})"
    and r1: "remove_ratio w1 = RNA_property_float_set (f32 (50 / 100))"
    and c1: "customdata w1 = Some (?dgo\<lparr>num := Some 50\<rparr>)"
    and s1: "session_of keypad_original w1"
    by blast
  have r1': "remove_ratio w1 = 1 / 2"
    unfolding r1 by (rule keypad_values)
  have "handleNumInput keypad_host (num (?dgo\<lparr>num := Some 50\<rparr>)) key_clearing = (None, True)"
    and "applyNumInput keypad_host None (f32 (remove_ratio w1 * 100))
           = (None, f32 (1 / 2 * 100))"
    and "ev_type key_clearing = EVT_OTHER 0" and "ev_val key_clearing = KM_PRESS"
    by (simp_all add: keypad_host_def key_clearing_def r1')
  from modal_numeric_step [OF keeps_bezt_keypad s1 c1 this(3,4,1,2)]
  obtain w2 where m2: "graphkeys_decimate_modal keypad_host w1 key_clearing
        = Some (w2, {OPERATOR_RUNNING_MODAL})"
    and r2: "remove_ratio w2 = RNA_property_float_set (f32 (f32 (1 / 2 * 100) / 100))"
    and c2: "customdata w2 = Some (?dgo\<lparr>num := Some 50, num := None\<rparr>)"
    and s2: "session_of keypad_original w2"
    by blast
  have r2': "remove_ratio w2 = 1 / 2"
    unfolding r2 by (rule keypad_values)
  have "ev_type (move_to 25) = MOUSEMOVE"
    and "\<not> hasNumInput keypad_host (num (?dgo\<lparr>num := Some 50, num := None\<rparr>))"
    by (simp_all add: keypad_host_def move_to_def)
  from modal_mouse_step [OF keeps_bezt_keypad s2 c2 this]
  obtain w3 where m3: "graphkeys_decimate_modal keypad_host w2 (move_to 25)
        = Some (w3, {OPERATOR_RUNNING_MODAL})"
    and r3: "remove_ratio w3 = RNA_property_float_set
                 (f32 (f32 (of_int (ev_x (move_to 25) - region_xmin (?dgo\<lparr>num := Some 50, num := None\<rparr>)))
                         / f32 (of_int (region_winx (?dgo\<lparr>num := Some 50, num := None\<rparr>)))))"
    by blast
  have r3': "remove_ratio w3 = 1 / 4"
    unfolding r3 by (simp add: move_to_def keypad_values)
  have "engaged keypad_host w1"
    by (simp add: engaged_def c1 keypad_host_def)
  with m1 m2 m3 r2' r3' show ?thesis by simp
qed

theorem numeric_input_while_engaged_witness:
  "(\<exists>w'. graphkeys_decimate_modal keypad_host keypad_session (key_typing 0)
            = Some (w', {OPERATOR_RUNNING_MODAL})
        \<and> remove_ratio w' = 0
        \<and> map bezt (curves w') = [None, Some [1, 2, 3, 4], None])
   \<and> (\<exists>w'. graphkeys_decimate_modal keypad_host keypad_session (move_to 25)
            = Some (w', {OPERATOR_RUNNING_MODAL})
        \<and> remove_ratio w' = 1 / 4
        \<and> map bezt (curves w') = [None, Some [1, 4], None])
   \<and> modal_events keypad_host keypad_engaged ([move_to 25, move_to 75] @ [key_typing 0])
        = modal_events keypad_host keypad_engaged [key_typing 0]"
proof -
  let ?dgo = "\<lparr>region_xmin = 0, region_winx = 100,
           bezt_arr_list = [\<lparr>tot_vert = 4, bezt_copy = [1, 2, 3, 4 :: nat]\<rparr>],
           num = (None :: real option)\<rparr>"
  note inst = numeric_input_while_engaged [OF keeps_bezt_keypad session_of_keypad customdata_keypad]
  have k: "ev_type (key_typing 0) = EVT_OTHER 1 \<and> ev_val (key_typing 0) = KM_PRESS
      \<and> handleNumInput keypad_host (num ?dgo) (key_typing 0) = (Some 0, True)
      \<and> applyNumInput keypad_host (Some 0) (f32 (remove_ratio keypad_session * 100))
           = (Some 0, 0)"
    by (simp add: keypad_host_def key_typing_def)
  from inst [of _ _ "key_typing 0"] k
  obtain w' where a: "graphkeys_decimate_modal keypad_host keypad_session (key_typing 0)
            = Some (w', {OPERATOR_RUNNING_MODAL})"
    and ra: "remove_ratio w' = RNA_property_float_set (f32 (0 / 100))"
    and ca: "curves w' =
       map (\<lambda>fcu. ANIM_animdata_update keypad_host
                    (fst (decimate_fcurve keypad_host fcu (remove_ratio w') FLT_MAX)))
         (map2 (\<lambda>fcu fcu0. restore_bezts fcu0 fcu) (curves keypad_session) keypad_original)"
    by blast
  have ra': "remove_ratio w' = 0"
    unfolding ra by (rule keypad_values)
  have ca': "map bezt (curves w') = [None, Some [1, 2, 3, 4], None]"
    unfolding ca ra'
    by (simp add: keypad_host_def example_host_def keypad_session_def keypad_original_def
        restore_bezts_def)
  have m: "\<not> hasNumInput keypad_host (num ?dgo) \<and> ev_type (move_to 25) = MOUSEMOVE
      \<and> region_winx ?dgo \<noteq> 0"
    by (simp add: keypad_host_def move_to_def)
  from inst [of _ _ "move_to 25"] m
  obtain v' where b: "graphkeys_decimate_modal keypad_host keypad_session (move_to 25)
            = Some (v', {OPERATOR_RUNNING_MODAL})"
    and rb: "remove_ratio v' = RNA_property_float_set
                        (f32 (f32 (of_int (ev_x (move_to 25) - region_xmin ?dgo))
                                / f32 (of_int (region_winx ?dgo))))"
    and cb: "curves v' =
       map (\<lambda>fcu. ANIM_animdata_update keypad_host
                    (fst (decimate_fcurve keypad_host fcu (remove_ratio v') FLT_MAX)))
         (map2 (\<lambda>fcu fcu0. restore_bezts fcu0 fcu) (curves keypad_session) keypad_original)"
    by blast
  have rb': "remove_ratio v' = 1 / 4"
    unfolding rb by (simp add: move_to_def keypad_values)
  have cb': "map bezt (curves v') = [None, Some [1, 4], None]"
    unfolding cb rb'
    by (simp add: keypad_host_def example_host_def keypad_session_def keypad_original_def
        restore_bezts_def)
  have se: "session_of keypad_original keypad_engaged"
    by (simp add: session_of_def keypad_engaged_def keypad_session_def keypad_original_def
        baked_pattern_def)
  have ce: "customdata keypad_engaged =
     Some \<lparr>region_xmin = 0, region_winx = 100,
           bezt_arr_list = [\<lparr>tot_vert = 4, bezt_copy = [1, 2, 3, 4]\<rparr>], num = Some 50\<rparr>"
    by (simp add: keypad_engaged_def)
  from numeric_input_while_engaged [OF keeps_bezt_keypad se ce,
      of "[move_to 25, move_to 75]" "[key_typing 0]"]
  have c: "modal_events keypad_host keypad_engaged ([move_to 25, move_to 75] @ [key_typing 0])
        = modal_events keypad_host keypad_engaged [key_typing 0]"
    by (simp add: keypad_host_def move_to_def)
  from a ra' ca' have A: "\<exists>w'. graphkeys_decimate_modal keypad_host keypad_session (key_typing 0)
            = Some (w', {OPERATOR_RUNNING_MODAL})
        \<and> remove_ratio w' = 0
        \<and> map bezt (curves w') = [None, Some [1, 2, 3, 4], None]"
    by (intro exI [of _ w'] conjI)
  from b rb' cb' have B: "\<exists>w'. graphkeys_decimate_modal keypad_host keypad_session (move_to 25)
            = Some (w', {OPERATOR_RUNNING_MODAL})
        \<and> remove_ratio w' = 1 / 4
        \<and> map bezt (curves w') = [None, Some [1, 4], None]"
    by (intro exI [of _ v'] conjI)
  from A B c show ?thesis by (intro conjI)
qed

subsection \<open>The decimator of the specification\<close>

lemma length_removal_costs: "length (removal_costs cost original pts) = length pts - 2"
  by (induction cost original pts rule: removal_costs.induct) simp_all

lemma cheapest_less: "cheapest xs = Some (j, m) \<Longrightarrow> j < length xs"
  by (induction xs arbitrary: j m) (auto split: option.splits if_splits)

lemma remove_at_interior:
  assumes "0 < i" and "Suc i < length xs"
  shows "hd (remove_at i xs) = hd xs" and "last (remove_at i xs) = last xs"
    and "length (remove_at i xs) = length xs - 1"
proof -
  from assms show "hd (remove_at i xs) = hd xs"
    by (cases xs) (simp_all add: remove_at_def hd_append take_Cons')
  from assms have "drop (Suc i) xs \<noteq> []" by simp
  with assms show "last (remove_at i xs) = last xs"
    by (simp add: remove_at_def last_drop)
  from assms show "length (remove_at i xs) = length xs - 1"
    by (simp add: remove_at_def)
qed

lemma subseq_remove_at: "subseq (remove_at i xs) xs"
proof (cases "i < length xs")
  case True
  have "subseq (drop (Suc i) xs) (xs ! i # drop (Suc i) xs)"
    by (rule list_emb_Cons) (rule subseq_order.refl)
  then have "subseq (take i xs @ drop (Suc i) xs) (take i xs @ xs ! i # drop (Suc i) xs)"
    by (rule list_emb_append_mono [OF subseq_order.refl])
  with True show ?thesis
    by (simp add: remove_at_def id_take_nth_drop [symmetric])
next
  case False
  then show ?thesis by (simp add: remove_at_def)
qed

lemma greedy_endpoints:
  "2 \<le> length pts \<Longrightarrow>
   hd (greedy cost original k b pts) = hd pts
   \<and> last (greedy cost original k b pts) = last pts
   \<and> 2 \<le> length (greedy cost original k b pts)
   \<and> subseq (greedy cost original k b pts) pts"
proof (induction k arbitrary: pts)
  case 0
  then show ?case by simp
next
  case (Suc k)
  show ?case
  proof (cases "cheapest (removal_costs cost original pts)")
    case None
    with Suc.prems show ?thesis by simp
  next
    case (Some r)
    obtain j m where r: "r = (j, m)" by (cases r)
    from cheapest_less [OF Some [unfolded r]] have j: "Suc (Suc j) < length pts"
      by (simp add: length_removal_costs)
    note rm = remove_at_interior [OF _ j]
    have "2 \<le> length (remove_at (Suc j) pts)"
      using rm(3) j by simp
    from Suc.IH [OF this] have ih:
      "hd (greedy cost original k b (remove_at (Suc j) pts)) = hd (remove_at (Suc j) pts)"
      "last (greedy cost original k b (remove_at (Suc j) pts)) = last (remove_at (Suc j) pts)"
      "2 \<le> length (greedy cost original k b (remove_at (Suc j) pts))"
      "subseq (greedy cost original k b (remove_at (Suc j) pts)) (remove_at (Suc j) pts)"
      by simp_all
    from ih(4) subseq_remove_at [of "Suc j" pts]
    have sub: "subseq (greedy cost original k b (remove_at (Suc j) pts)) pts"
      by (rule subseq_order.trans)
    show ?thesis
      using Some r Suc.prems ih(1-3) rm(1,2) sub by simp
  qed
qed

text \<open>
  C6. For every policy, every cost function and every Bezier curve with at least two
  points, the decimator of the specification returns a curve whose first and last points
  are the first and last points of the input; the output has at least two points and is a
  subsequence of the input, so only interior points are removed.
\<close>

theorem decimate_endpoints:
  assumes "is_bezier curve" and "2 \<le> length (points curve)"
  shows "\<exists>out. decimate cost curve policy = Inr out
           \<and> hd (points out) = hd (points curve)
           \<and> last (points out) = last (points curve)
           \<and> 2 \<le> length (points out)
           \<and> subseq (points out) (points curve)"
  using assms greedy_endpoints [OF assms(2), of cost "points curve"]
  by (cases policy) (simp_all add: decimate_def)

lemma linear_cost_line:
  "linear_cost original (key 0 0) (key 1 1) (key 2 2) = 0"
  "linear_cost original (key 1 1) (key 2 2) (key 3 3) = 0"
  "linear_cost original (key 2 2) (key 3 3) (key 4 4) = 0"
  "linear_cost original (key 0 0) (key 2 2) (key 3 3) = 0"
  "linear_cost original (key 0 0) (key 3 3) (key 4 4) = 0"
  by (simp_all add: linear_cost_def key_def)

theorem decimate_endpoints_witness:
  "decimate linear_cost example_line (ByRatio (1 / 2))
     = Inr \<lparr>points = [key 0 0, key 3 3, key 4 4], is_bezier = True\<rparr>
   \<and> hd [key 0 0, key 3 3, key 4 4] = hd (points example_line)
   \<and> last [key 0 0, key 3 3, key 4 4] = last (points example_line)"
proof -
  have g: "greedy linear_cost [key 0 0, key 1 1, key 2 2, key 3 3, key 4 4] 2 Unbounded
             [key 0 0, key 1 1, key 2 2, key 3 3, key 4 4] = [key 0 0, key 3 3, key 4 4]"
    by (simp add: numeral_2_eq_2 linear_cost_line remove_at_def exceeds_def)
  have d: "decimate linear_cost example_line (ByRatio (1 / 2))
     = Inr \<lparr>points = [key 0 0, key 3 3, key 4 4], is_bezier = True\<rparr>"
    by (simp add: decimate_def example_line_def eligible_point_count_def g)
  from decimate_endpoints [of example_line linear_cost "ByRatio (1 / 2)"]
  show ?thesis
    unfolding d by (simp add: example_line_def)
qed

end
